theory Spec2Isabelle
  imports Complex_Main "HOL-Library.AList"
begin

section \<open>Python values\<close>

text \<open>
  The backend exchanges JSON with its clients and keeps every session as a Python
  dictionary. JSON values are modelled by \<open>pyval\<close>; JSON floats are left out (neither
  the configuration options nor the mode data of the source compute with them). A
  dictionary is an association list in insertion order, as Python keeps it: \<open>map_of\<close>
  is the lookup, \<open>AList.update\<close> the assignment \<^verbatim>\<open>d[k] = v\<close> (in place for a
  key that is present, at the end for a new one). Strings are lists of 8-bit characters.
\<close>

datatype pyval =
    PNone
  | PBool bool
  | PInt int
  | PStr string
  | PList "pyval list"
  | PDict "(string \<times> pyval) list"

type_synonym pydict = "(string \<times> pyval) list"

datatype py_error =
    TypeError
  | AttributeError
  | KeyError
  | UpstreamError string
  | GroqNotInitialized
  | AIServiceError py_error

text \<open>\<^verbatim>\<open>d.get(k, default)\<close>\<close>

definition dict_get :: "pydict \<Rightarrow> string \<Rightarrow> pyval \<Rightarrow> pyval" where
  "dict_get d k dflt = (case map_of d k of None \<Rightarrow> dflt | Some v \<Rightarrow> v)"

text \<open>\<^verbatim>\<open>d.update(other)\<close>: every item of \<open>other\<close> is assigned into \<open>d\<close>, in order.\<close>

definition dict_update :: "pydict \<Rightarrow> pydict \<Rightarrow> pydict" where
  "dict_update d other = fold (\<lambda>(k, v) acc. AList.update k v acc) other d"

text \<open>
  The slice \<^verbatim>\<open>xs[-n:]\<close> for a positive \<open>n\<close>: the last \<open>n\<close> elements, the whole list
  when it is shorter.
\<close>

definition slice_last :: "nat \<Rightarrow> 'a list \<Rightarrow> 'a list" where
  "slice_last n xs = drop (length xs - n) xs"

section \<open>Sessions (services/session\_manager.py)\<close>

text \<open>
  A history entry is the dictionary \<^verbatim>\<open>{'role', 'text', 'timestamp'}\<close>, a session the
  dictionary \<^verbatim>\<open>{'session_id', 'mode', 'conversation_history', 'mode_specific_data',
  'created_at', 'last_activity'}\<close>; both have fixed keys and are records here.
  \<^verbatim>\<open>datetime.now().timestamp()\<close> is a number of seconds, a real here; each reading
  of the clock is an argument of the operation that makes it. The store
  \<^verbatim>\<open>self.sessions\<close> is a dictionary from session identifiers to sessions. Every
  operation holds the manager's lock from its first access of the store to its last,
  so an operation is one atomic step: a function from the store to the store.
\<close>

record turn =
  turn_role :: string
  turn_text :: string
  turn_timestamp :: real

record session =
  session_id :: string
  mode :: string
  conversation_history :: "turn list"
  mode_specific_data :: pydict
  created_at :: real
  last_activity :: real

type_synonym sessions = "(string \<times> session) list"

definition initialize_mode_data :: "string \<Rightarrow> pydict \<Rightarrow> pydict" where
  "initialize_mode_data m config =
     (if m = ''interview'' then
        [(''role'', dict_get config ''role'' (PStr ''Software Engineer'')),
         (''company'', dict_get config ''company'' (PStr ''Tech Company'')),
         (''question_index'', PInt 0),
         (''total_questions'', dict_get config ''totalQuestions'' (PInt 5)),
         (''scores'', PList []),
         (''evaluations'', PList [])]
      else if m = ''debate'' then
        [(''topic'', dict_get config ''topic'' (PStr ''AI in society'')),
         (''stance'', dict_get config ''stance'' (PStr ''pro'')),
         (''arguments_made'', PList []),
         (''counter_arguments'', PList [])]
      else
        [(''user_preferences'', dict_get config ''preferences'' (PDict [])),
         (''emotional_tone'', PStr ''friendly'')])"

text \<open>
  \<^verbatim>\<open>create_session\<close>: \<open>new_id\<close> is the identifier \<^verbatim>\<open>str(uuid.uuid4())\<close> drew, and
  \<open>t_created\<close>, \<open>t_active\<close> are the two readings of the clock. A configuration of
  \<^verbatim>\<open>None\<close> stands for the empty one.
\<close>

definition create_session ::
  "sessions \<Rightarrow> string \<Rightarrow> string \<Rightarrow> pydict option \<Rightarrow> real \<Rightarrow> real \<Rightarrow> string \<times> sessions" where
  "create_session ss new_id m config t_created t_active =
     (let config = (case config of None \<Rightarrow> [] | Some c \<Rightarrow> c);
          s = \<lparr>session_id = new_id, mode = m, conversation_history = [],
               mode_specific_data = initialize_mode_data m config,
               created_at = t_created, last_activity = t_active\<rparr>
      in (new_id, AList.update new_id s ss))"

definition get_session :: "sessions \<Rightarrow> string \<Rightarrow> session option" where
  "get_session ss sid = map_of ss sid"

text \<open>
  \<^verbatim>\<open>add_message\<close>: \<open>t_msg\<close> is the clock reading stored in the entry, \<open>t_active\<close> the
  one stored as \<^verbatim>\<open>last_activity\<close>.
\<close>

definition add_message ::
  "sessions \<Rightarrow> string \<Rightarrow> string \<Rightarrow> string \<Rightarrow> real \<Rightarrow> real \<Rightarrow> sessions" where
  "add_message ss sid r txt t_msg t_active =
     (case map_of ss sid of
        None \<Rightarrow> ss
      | Some s \<Rightarrow>
          (let h = conversation_history s
                     @ [\<lparr>turn_role = r, turn_text = txt, turn_timestamp = t_msg\<rparr>];
               h' = (if length h > 30 then slice_last 30 h else h)
           in AList.update sid (s\<lparr>conversation_history := h', last_activity := t_active\<rparr>) ss))"

definition change_mode ::
  "sessions \<Rightarrow> string \<Rightarrow> string \<Rightarrow> pydict option \<Rightarrow> real \<Rightarrow> sessions" where
  "change_mode ss sid new_mode config t_active =
     (let config = (case config of None \<Rightarrow> [] | Some c \<Rightarrow> c)
      in case map_of ss sid of
           None \<Rightarrow> ss
         | Some s \<Rightarrow>
             AList.update sid
               (s\<lparr>mode := new_mode,
                  mode_specific_data := initialize_mode_data new_mode config,
                  last_activity := t_active\<rparr>) ss)"

definition update_mode_data :: "sessions \<Rightarrow> string \<Rightarrow> pydict \<Rightarrow> sessions" where
  "update_mode_data ss sid mode_data =
     (case map_of ss sid of
        None \<Rightarrow> ss
      | Some s \<Rightarrow>
          AList.update sid
            (s\<lparr>mode_specific_data := dict_update (mode_specific_data s) mode_data\<rparr>) ss)"

definition delete_session :: "sessions \<Rightarrow> string \<Rightarrow> sessions" where
  "delete_session ss sid = (if sid \<in> fst ` set ss then AList.delete sid ss else ss)"

text \<open>
  \<^verbatim>\<open>cleanup_old_sessions\<close> reads the clock once (\<open>now\<close>), collects the identifiers to
  delete in a first loop over the items and deletes them in a second one.
  \<^verbatim>\<open>del d[k]\<close> raises \<^verbatim>\<open>KeyError\<close> for a key that is not there. The line printed
  for each deleted session is not part of the model.
\<close>

fun expired_ids :: "real \<Rightarrow> real \<Rightarrow> sessions \<Rightarrow> string list" where
  "expired_ids now max_age [] = []"
| "expired_ids now max_age ((sid, s) # rest) =
     (if now - last_activity s > max_age then sid # expired_ids now max_age rest
      else expired_ids now max_age rest)"

definition dict_del :: "sessions \<Rightarrow> string \<Rightarrow> py_error + sessions" where
  "dict_del ss sid = (if sid \<in> fst ` set ss then Inr (AList.delete sid ss) else Inl KeyError)"

fun delete_all :: "string list \<Rightarrow> sessions \<Rightarrow> py_error + sessions" where
  "delete_all [] ss = Inr ss"
| "delete_all (sid # ids) ss =
     (case dict_del ss sid of Inl e \<Rightarrow> Inl e | Inr ss' \<Rightarrow> delete_all ids ss')"

definition cleanup_old_sessions :: "sessions \<Rightarrow> real \<Rightarrow> real \<Rightarrow> py_error + sessions" where
  "cleanup_old_sessions ss now max_age = delete_all (expired_ids now max_age ss) ss"

text \<open>A sequence of \<^verbatim>\<open>add_message\<close> calls on one session: role, text and the two clock readings of each.\<close>

fun add_messages ::
  "sessions \<Rightarrow> string \<Rightarrow> (string \<times> string \<times> real \<times> real) list \<Rightarrow> sessions" where
  "add_messages ss sid [] = ss"
| "add_messages ss sid ((r, txt, t_msg, t_active) # calls) =
     add_messages (add_message ss sid r txt t_msg t_active) sid calls"

definition turn_of :: "string \<times> string \<times> real \<times> real \<Rightarrow> turn" where
  "turn_of c = (case c of (r, txt, t_msg, t_active) \<Rightarrow>
     \<lparr>turn_role = r, turn_text = txt, turn_timestamp = t_msg\<rparr>)"

section \<open>Python's builtins on JSON values\<close>

text \<open>
  \<^verbatim>\<open>str.strip()\<close> removes the white space at both ends; the white space characters
  below code point 256 are the ones listed.
\<close>

definition is_space :: "char \<Rightarrow> bool" where
  "is_space c = (c \<in> {CHR 0x09, CHR ''\<newline>'', CHR 0x0B, CHR 0x0C, CHR 0x0D,
                        CHR 0x1C, CHR 0x1D, CHR 0x1E, CHR 0x1F, CHR '' '', CHR 0x85, CHR 0xA0})"

definition strip :: "string \<Rightarrow> string" where
  "strip s = rev (dropWhile is_space (rev (dropWhile is_space s)))"

text \<open>\<^verbatim>\<open>sep.join(xs)\<close>\<close>

fun join :: "string \<Rightarrow> string list \<Rightarrow> string" where
  "join sep [] = []"
| "join sep [x] = x"
| "join sep (x # y # ys) = x @ sep @ join sep (y # ys)"

text \<open>The decimal digits of a natural number, and \<^verbatim>\<open>str\<close> of an integer.\<close>

fun digits :: "nat \<Rightarrow> string" where
  "digits n =
     (if n < 10 then [char_of (48 + n)]
      else digits (n div 10) @ [char_of (48 + n mod 10)])"

definition str_int :: "int \<Rightarrow> string" where
  "str_int i = (if i < 0 then CHR ''-'' # digits (nat (- i)) else digits (nat i))"

text \<open>
  \<^verbatim>\<open>repr\<close> of a string: in single quotes, unless the string has a single quote and no
  double quote; the quote and the backslash are escaped, tab, newline and return are
  written \<^verbatim>\<open>\t\<close>, \<^verbatim>\<open>\n\<close>, \<^verbatim>\<open>\r\<close>, and the other characters that do not print are
  written \<^verbatim>\<open>\xNN\<close>.
\<close>

definition hex_digit :: "nat \<Rightarrow> char" where
  "hex_digit k = (if k < 10 then char_of (48 + k) else char_of (87 + k))"

definition repr_char :: "char \<Rightarrow> char \<Rightarrow> string" where
  "repr_char quote c =
     (let n = (of_char c :: nat) in
      if c = quote \<or> c = CHR 0x5C then [CHR 0x5C, c]
      else if c = CHR 0x09 then [CHR 0x5C, CHR ''t'']
      else if c = CHR ''\<newline>'' then [CHR 0x5C, CHR ''n'']
      else if c = CHR 0x0D then [CHR 0x5C, CHR ''r'']
      else if n < 32 \<or> n = 127 \<or> (128 \<le> n \<and> n \<le> 160) \<or> n = 173
        then [CHR 0x5C, CHR ''x'', hex_digit (n div 16), hex_digit (n mod 16)]
      else [c])"

definition repr_str :: "string \<Rightarrow> string" where
  "repr_str s =
     (let quote = (if CHR 0x27 \<in> set s \<and> CHR 0x22 \<notin> set s then CHR 0x22 else CHR 0x27)
      in quote # concat (map (repr_char quote) s) @ [quote])"

fun py_repr :: "pyval \<Rightarrow> string" where
  "py_repr PNone = ''None''"
| "py_repr (PBool b) = (if b then ''True'' else ''False'')"
| "py_repr (PInt i) = str_int i"
| "py_repr (PStr s) = repr_str s"
| "py_repr (PList xs) = ''['' @ join '', '' (map py_repr xs) @ '']''"
| "py_repr (PDict kvs) =
     ''{'' @ join '', '' (map (\<lambda>(k, v). repr_str k @ '': '' @ py_repr v) kvs) @ ''}''"

text \<open>\<^verbatim>\<open>str(v)\<close>, which is what an f-string writes for \<^verbatim>\<open>{v}\<close>.\<close>

definition py_str :: "pyval \<Rightarrow> string" where
  "py_str v = (case v of PStr s \<Rightarrow> s | _ \<Rightarrow> py_repr v)"

text \<open>
  \<^verbatim>\<open>v + 1\<close>: an integer for an integer or a boolean (a boolean counts as 0 or 1),
  \<^verbatim>\<open>TypeError\<close> for every other JSON value.
\<close>

definition py_add_one :: "pyval \<Rightarrow> py_error + int" where
  "py_add_one v =
     (case v of
        PInt i \<Rightarrow> Inr (i + 1)
      | PBool b \<Rightarrow> Inr ((if b then 1 else 0) + 1)
      | _ \<Rightarrow> Inl TypeError)"

text \<open>
  \<^verbatim>\<open>min(i, v)\<close> for an integer \<open>i\<close>: \<open>v\<close> when \<^verbatim>\<open>v < i\<close>, else \<open>i\<close>; comparing an
  integer with a value that is no number raises \<^verbatim>\<open>TypeError\<close>.
\<close>

definition py_min :: "int \<Rightarrow> pyval \<Rightarrow> py_error + pyval" where
  "py_min i v =
     (case v of
        PInt j \<Rightarrow> Inr (if j < i then PInt j else PInt i)
      | PBool b \<Rightarrow> Inr (if (if b then 1 else 0) < i then PBool b else PInt i)
      | _ \<Rightarrow> Inl TypeError)"

text \<open>\<^verbatim>\<open>int(x)\<close> of a float truncates towards zero.\<close>

definition trunc_int :: "real \<Rightarrow> int" where
  "trunc_int x = (if 0 \<le> x then \<lfloor>x\<rfloor> else \<lceil>x\<rceil>)"

section \<open>The language model service (services/groq\_service.py)\<close>

definition chat_prompt :: string where
  "chat_prompt =
     ''You are a friendly, empathetic human companion having a natural conversation. \<newline>'' @
     ''- Speak naturally with occasional filler words like \"um\", \"well\", \"you know\"\<newline>'' @
     ''- Show genuine interest and emotions\<newline>'' @
     ''- Ask follow-up questions\<newline>'' @
     ''- Keep responses conversational and concise (2-3 sentences usually)\<newline>'' @
     ''- Remember previous context and refer back to it\<newline>'' @
     ''- Be warm, supportive, and engaging''"

definition interview_prompt :: "pyval \<Rightarrow> pyval \<Rightarrow> pyval \<Rightarrow> int \<Rightarrow> string" where
  "interview_prompt role company total_questions question_number =
     ''You are a professional interviewer for the role of '' @ py_str role @
     '' at '' @ py_str company @ ''.\<newline>'' @
     ''\<newline>'' @
     ''Your responsibilities:\<newline>'' @
     ''1. Ask '' @ py_str total_questions @ '' progressively challenging questions\<newline>'' @
     ''2. Listen carefully to each answer\<newline>'' @
     ''3. Provide brief acknowledgment after each answer\<newline>'' @
     ''4. Ask relevant follow-up questions if the answer is incomplete\<newline>'' @
     ''5. After all questions, provide constructive feedback\<newline>'' @
     ''\<newline>'' @
     ''Current question number: '' @ str_int question_number @ ''/'' @
       py_str total_questions @ ''\<newline>'' @
     ''\<newline>'' @
     ''Interview structure:\<newline>'' @
     ''- Start with an easy warm-up question\<newline>'' @
     ''- Progress to technical/behavioral questions\<newline>'' @
     ''- End with a challenging scenario question\<newline>'' @
     ''- Conclude with overall feedback\<newline>'' @
     ''\<newline>'' @
     ''Keep your questions clear, professional, and one at a time.''"

definition debate_prompt :: "pyval \<Rightarrow> pyval \<Rightarrow> string" where
  "debate_prompt topic stance =
     ''You are participating in a formal debate on the topic: \"'' @ py_str topic @
     ''\".\<newline>'' @
     ''Your stance: '' @ py_str stance @ ''\<newline>'' @
     ''\<newline>'' @
     ''Debate guidelines:\<newline>'' @
     ''- Present logical, well-reasoned arguments\<newline>'' @
     ''- Use facts and examples when possible\<newline>'' @
     ''- Counter the opponent's points respectfully\<newline>'' @
     ''- Stay on topic\<newline>'' @
     ''- Be persuasive but fair\<newline>'' @
     ''- Acknowledge valid points from the other side\<newline>'' @
     ''- Build on previous arguments\<newline>'' @
     ''- Keep responses focused (3-4 sentences)\<newline>'' @
     ''\<newline>'' @
     ''Remember: This is a friendly debate focused on intellectual discourse.''"

text \<open>
  \<^verbatim>\<open>_get_system_prompt\<close>. The interview template computes
  \<^verbatim>\<open>question_index + 1\<close>, which raises for a value that is no number.
\<close>

definition get_system_prompt :: "string \<Rightarrow> pydict option \<Rightarrow> py_error + string" where
  "get_system_prompt m mode_data =
     (let mode_data = (case mode_data of None \<Rightarrow> [] | Some d \<Rightarrow> d) in
      if m = ''chat'' then Inr chat_prompt
      else if m = ''interview'' then
        (let role = dict_get mode_data ''role'' (PStr ''Software Engineer'');
             company = dict_get mode_data ''company'' (PStr ''a leading tech company'');
             total_questions = dict_get mode_data ''total_questions'' (PInt 5);
             question_index = dict_get mode_data ''question_index'' (PInt 0)
         in case py_add_one question_index of
              Inl e \<Rightarrow> Inl e
            | Inr n \<Rightarrow> Inr (interview_prompt role company total_questions n))
      else if m = ''debate'' then
        (let topic = dict_get mode_data ''topic'' (PStr ''AI in society'');
             stance = dict_get mode_data ''stance'' (PStr ''PRO'')
         in Inr (debate_prompt topic stance))
      else Inr ''You are a helpful AI assistant.'')"

text \<open>\<^verbatim>\<open>_process_mode_logic\<close>: the patch for the mode data after a reply.\<close>

definition process_mode_logic ::
  "string \<Rightarrow> pydict \<Rightarrow> string \<Rightarrow> string \<Rightarrow> py_error + pydict" where
  "process_mode_logic m mode_data user_message ai_response =
     (if m = ''interview'' then
        (if CHR ''?'' \<in> set ai_response then
           (case py_add_one (dict_get mode_data ''question_index'' (PInt 0)) of
              Inl e \<Rightarrow> Inl e
            | Inr n \<Rightarrow>
                (case py_min n (dict_get mode_data ''total_questions'' (PInt 5)) of
                   Inl e \<Rightarrow> Inl e
                 | Inr v \<Rightarrow> Inr [(''question_index'', v)]))
         else Inr [])
      else if m = ''debate'' then
        (case dict_get mode_data ''arguments_made'' (PList []) of
           PList args \<Rightarrow> Inr [(''arguments_made'', PList (args @ [PStr (take 50 ai_response)]))]
         | _ \<Rightarrow> Inl TypeError)
      else Inr [])"

text \<open>
  The chat completion API is outside the repository: a client is a function from the
  messages it is sent to what the call does, which is to raise or to return the content
  of the first choice (a string or \<^verbatim>\<open>None\<close>). The model name, the temperature and the
  token limit of the request are constants and are left out.
\<close>

record chat_message =
  msg_role :: string
  msg_content :: string

datatype llm_reply = Raises py_error | Content "string option"

record groq_service =
  client :: "(chat_message list \<Rightarrow> llm_reply) option"

record ai_response =
  resp_text :: string
  resp_mode_data :: pydict

text \<open>
  The messages of a request, as \<^verbatim>\<open>generate_response\<close> builds them: the system prompt,
  the last 10 entries of the history it is given, each with the role \<^verbatim>\<open>user\<close> or
  \<^verbatim>\<open>assistant\<close>, and the current message.
\<close>

definition history_message :: "turn \<Rightarrow> chat_message" where
  "history_message msg =
     \<lparr>msg_role = (if turn_role msg = ''user'' then ''user'' else ''assistant''),
      msg_content = turn_text msg\<rparr>"

definition build_messages :: "string \<Rightarrow> turn list \<Rightarrow> string \<Rightarrow> chat_message list" where
  "build_messages system_prompt history user_message =
     \<lparr>msg_role = ''system'', msg_content = system_prompt\<rparr>
       # map history_message (slice_last 10 history)
       @ [\<lparr>msg_role = ''user'', msg_content = user_message\<rparr>]"

text \<open>
  \<^verbatim>\<open>generate_response\<close> returns the requests it has sent to the client (none or one)
  and either the exception it raises or its result. Every exception raised after the
  check of the client is caught and raised again as \<^verbatim>\<open>Exception('AI service error: ...')\<close>.
\<close>

definition generate_response ::
  "groq_service \<Rightarrow> string \<Rightarrow> turn list \<Rightarrow> string \<Rightarrow> pydict option
     \<Rightarrow> chat_message list list \<times> (py_error + ai_response)" where
  "generate_response groq user_message history m mode_data =
     (let mode_data = (case mode_data of None \<Rightarrow> [] | Some d \<Rightarrow> d) in
      case client groq of
        None \<Rightarrow> ([], Inl GroqNotInitialized)
      | Some c \<Rightarrow>
          (case get_system_prompt m (Some mode_data) of
             Inl e \<Rightarrow> ([], Inl (AIServiceError e))
           | Inr system_prompt \<Rightarrow>
               (let messages = build_messages system_prompt history user_message in
                case c messages of
                  Raises e \<Rightarrow> ([messages], Inl (AIServiceError e))
                | Content None \<Rightarrow> ([messages], Inl (AIServiceError AttributeError))
                | Content (Some content) \<Rightarrow>
                    (let response_text = strip content in
                     case process_mode_logic m mode_data user_message response_text of
                       Inl e \<Rightarrow> ([messages], Inl (AIServiceError e))
                     | Inr mode_data_update \<Rightarrow>
                         ([messages],
                          Inr \<lparr>resp_text = response_text,
                               resp_mode_data = mode_data_update\<rparr>)))))"

record audio =
  audio_text :: string
  audio_format :: string
  audio_duration :: nat

definition text_to_speech :: "string \<Rightarrow> audio" where
  "text_to_speech t = \<lparr>audio_text = t, audio_format = ''text'', audio_duration = length t * 50\<rparr>"

section \<open>The text message handler (app.py)\<close>

text \<open>
  The connection manager keeps the connections that have a socket and the session of
  each connection. \<^verbatim>\<open>send_json\<close> pushes an event to a connection that has a socket
  and does nothing otherwise; the sockets themselves are outside the model, which
  records the events pushed, in order. The state of the application is the session
  store, the connection manager, the events pushed so far and the requests sent to the
  language model so far.
\<close>

datatype event =
    AiThinking string
  | AiResponse string audio pydict int
  | ErrorEvent string py_error

record connection_manager =
  active_connections :: "string list"
  connection_sessions :: "(string \<times> string) list"

record app_state =
  store :: sessions
  manager :: connection_manager
  sent :: "(string \<times> event) list"
  llm_requests :: "chat_message list list"

definition send_json :: "app_state \<Rightarrow> string \<Rightarrow> event \<Rightarrow> app_state" where
  "send_json st connection_id data =
     (if connection_id \<in> set (active_connections (manager st))
      then st\<lparr>sent := sent st @ [(connection_id, data)]\<rparr> else st)"

text \<open>The \<^verbatim>\<open>except Exception\<close> clause of the handler.\<close>

definition send_error :: "app_state \<Rightarrow> string \<Rightarrow> py_error \<Rightarrow> app_state" where
  "send_error st client_id e =
     send_json st client_id (ErrorEvent ''Error processing your message'' e)"

text \<open>
  \<^verbatim>\<open>handle_text_message\<close>. \<open>clock k\<close> is the \<open>k\<close>-th reading of the clock that the
  call makes: two in each \<^verbatim>\<open>add_message\<close> and one for the time stamp of the
  response. \<^verbatim>\<open>data.get('text', '').strip()\<close> raises \<^verbatim>\<open>AttributeError\<close> for a text
  that is no string, and \<^verbatim>\<open>session['conversation_history']\<close> raises
  \<^verbatim>\<open>TypeError\<close> when the store has no such session.
\<close>

definition handle_text_message ::
  "groq_service \<Rightarrow> (nat \<Rightarrow> real) \<Rightarrow> app_state \<Rightarrow> string \<Rightarrow> pydict \<Rightarrow> app_state" where
  "handle_text_message groq clock st client_id data =
     (case map_of (connection_sessions (manager st)) client_id of
        None \<Rightarrow> st
      | Some sid \<Rightarrow>
          (case dict_get data ''text'' (PStr []) of
             PStr raw \<Rightarrow>
               (let txt = strip raw in
                if txt = [] then st
                else
                  (let st1 = st\<lparr>store := add_message (store st) sid ''user'' txt (clock 0) (clock 1)\<rparr>;
                       session = get_session (store st1) sid;
                       st2 = send_json st1 client_id (AiThinking ''generating'')
                   in case session of
                        None \<Rightarrow> send_error st2 client_id TypeError
                      | Some s \<Rightarrow>
                          (case generate_response groq txt (conversation_history s) (mode s)
                                  (Some (mode_specific_data s)) of
                             (reqs, Inl e) \<Rightarrow>
                               send_error (st2\<lparr>llm_requests := llm_requests st2 @ reqs\<rparr>) client_id e
                           | (reqs, Inr resp) \<Rightarrow>
                               (let st3 = st2\<lparr>llm_requests := llm_requests st2 @ reqs\<rparr>;
                                    st4 = (if resp_mode_data resp \<noteq> []
                                           then st3\<lparr>store := update_mode_data (store st3) sid
                                                                (resp_mode_data resp)\<rparr>
                                           else st3);
                                    audio_data = text_to_speech (resp_text resp);
                                    st5 = st4\<lparr>store := add_message (store st4) sid ''ai''
                                                          (resp_text resp) (clock 2) (clock 3)\<rparr>
                                in send_json st5 client_id
                                     (AiResponse (resp_text resp) audio_data (resp_mode_data resp)
                                        (trunc_int (clock 4 * 1000)))))))
           | _ \<Rightarrow> send_error st client_id AttributeError))"

text \<open>
  The mode data of a session along a sequence of turns (user text and reply) in one
  mode, as \<^verbatim>\<open>handle_text_message\<close> changes it: the patch of
  \<^verbatim>\<open>_process_mode_logic\<close> is merged by \<^verbatim>\<open>update_mode_data\<close> when it is not empty, and
  a turn whose patch raises leaves the mode data as it was.
\<close>

fun mode_data_after :: "string \<Rightarrow> pydict \<Rightarrow> (string \<times> string) list \<Rightarrow> pydict" where
  "mode_data_after m md [] = md"
| "mode_data_after m md ((user_message, reply) # turns) =
     (case process_mode_logic m md user_message reply of
        Inl e \<Rightarrow> mode_data_after m md turns
      | Inr patch \<Rightarrow>
          mode_data_after m (if patch \<noteq> [] then dict_update md patch else md) turns)"

section \<open>Example states\<close>

text \<open>A new chat session, as \<^verbatim>\<open>create_session\<close> makes it at time \<open>t\<close>, and a store of three.\<close>

definition example_session :: "string \<Rightarrow> real \<Rightarrow> session" where
  "example_session sid t =
     \<lparr>session_id = sid, mode = ''chat'', conversation_history = [],
      mode_specific_data = initialize_mode_data ''chat'' [],
      created_at = t, last_activity = t\<rparr>"

definition example_store :: sessions where
  "example_store =
     [(''a'', example_session ''a'' 100),
      (''b'', example_session ''b'' 400),
      (''c'', example_session ''c'' 3000)]"

text \<open>
  An application state with one connection on one new chat session, a language model
  client that raises, one that answers, and a clock.
\<close>

definition example_app_state :: app_state where
  "example_app_state =
     \<lparr>store = [(''a'', example_session ''a'' 100)],
      manager = \<lparr>active_connections = [''c1''], connection_sessions = [(''c1'', ''a'')]\<rparr>,
      sent = [],
      llm_requests = []\<rparr>"

definition failing_groq :: groq_service where
  "failing_groq = \<lparr>client = Some (\<lambda>messages. Raises (UpstreamError ''rate limit exceeded''))\<rparr>"

definition answering_groq :: groq_service where
  "answering_groq = \<lparr>client = Some (\<lambda>messages. Content (Some '' Nice to meet you. ''))\<rparr>"

definition example_clock :: "nat \<Rightarrow> real" where
  "example_clock k = 200 + real k"

text \<open>
  The same state with the socket of the connection gone, and a state whose session
  already has twelve history entries, of the AI and of the user in turn.
\<close>

definition example_closed_state :: app_state where
  "example_closed_state =
     example_app_state
       \<lparr>manager := \<lparr>active_connections = [], connection_sessions = [(''c1'', ''a'')]\<rparr>\<rparr>"

definition example_long_history :: "turn list" where
  "example_long_history =
     [\<lparr>turn_role = ''ai'', turn_text = ''t0'', turn_timestamp = 0\<rparr>,
      \<lparr>turn_role = ''user'', turn_text = ''t1'', turn_timestamp = 1\<rparr>,
      \<lparr>turn_role = ''ai'', turn_text = ''t2'', turn_timestamp = 2\<rparr>,
      \<lparr>turn_role = ''user'', turn_text = ''t3'', turn_timestamp = 3\<rparr>,
      \<lparr>turn_role = ''ai'', turn_text = ''t4'', turn_timestamp = 4\<rparr>,
      \<lparr>turn_role = ''user'', turn_text = ''t5'', turn_timestamp = 5\<rparr>,
      \<lparr>turn_role = ''ai'', turn_text = ''t6'', turn_timestamp = 6\<rparr>,
      \<lparr>turn_role = ''user'', turn_text = ''t7'', turn_timestamp = 7\<rparr>,
      \<lparr>turn_role = ''ai'', turn_text = ''t8'', turn_timestamp = 8\<rparr>,
      \<lparr>turn_role = ''user'', turn_text = ''t9'', turn_timestamp = 9\<rparr>,
      \<lparr>turn_role = ''ai'', turn_text = ''t10'', turn_timestamp = 10\<rparr>,
      \<lparr>turn_role = ''user'', turn_text = ''t11'', turn_timestamp = 11\<rparr>]"

definition example_busy_state :: app_state where
  "example_busy_state =
     \<lparr>store = [(''a'', (example_session ''a'' 100)\<lparr>conversation_history := example_long_history\<rparr>)],
      manager = \<lparr>active_connections = [''c1''], connection_sessions = [(''c1'', ''a'')]\<rparr>,
      sent = [],
      llm_requests = []\<rparr>"

section \<open>The history cap\<close>

lemma slice_last_id: "length xs \<le> n \<Longrightarrow> slice_last n xs = xs"
  by (simp add: slice_last_def)

lemma length_slice_last: "length (slice_last n xs) = min n (length xs)"
  by (simp add: slice_last_def)

lemma slice_last_append_left:
  "slice_last n (slice_last n xs @ ys) = slice_last n (xs @ ys)"
proof -
  have "length xs + length ys - (length xs - n + n) + (length xs - n) = length xs + length ys - n"
    by arith
  then show ?thesis by (simp add: slice_last_def)
qed

lemma map_of_add_message:
  "map_of ss sid = Some s \<Longrightarrow>
   map_of (add_message ss sid r txt t_msg t_active) sid =
     Some (s\<lparr>conversation_history :=
                slice_last 30 (conversation_history s
                  @ [\<lparr>turn_role = r, turn_text = txt, turn_timestamp = t_msg\<rparr>]),
              last_activity := t_active\<rparr>)"
  by (simp add: add_message_def Let_def update_conv' slice_last_id)

lemma add_messages_history:
  "map_of ss sid = Some s \<Longrightarrow>
   \<exists>s'. map_of (add_messages ss sid calls) sid = Some s' \<and>
     conversation_history s' =
       (if calls = [] then conversation_history s
        else slice_last 30 (conversation_history s @ map turn_of calls))"
proof (induction calls arbitrary: ss s)
  case Nil
  then show ?case by simp
next
  case (Cons c calls)
  obtain r tx t_msg t_active where c: "c = (r, tx, t_msg, t_active)"
    by (cases c) auto
  let ?s1 = "s\<lparr>conversation_history :=
                slice_last 30 (conversation_history s
                  @ [\<lparr>turn_role = r, turn_text = tx, turn_timestamp = t_msg\<rparr>]),
              last_activity := t_active\<rparr>"
  have step: "map_of (add_message ss sid r tx t_msg t_active) sid = Some ?s1"
    using Cons.prems by (rule map_of_add_message)
  from Cons.IH [OF step] obtain s' where
    s': "map_of (add_messages (add_message ss sid r tx t_msg t_active) sid calls) sid = Some s'"
    and h: "conversation_history s' =
       (if calls = [] then conversation_history ?s1
        else slice_last 30 (conversation_history ?s1 @ map turn_of calls))"
    by blast
  have "conversation_history s' = slice_last 30 (conversation_history s @ map turn_of (c # calls))"
    using h by (simp add: c turn_of_def slice_last_append_left)
  with s' show ?case by (simp add: c)
qed


text \<open>
  Claim C1. For a session of the store whose history holds at most 30 entries (a new
  session has none), after any sequence of \<^verbatim>\<open>add_message\<close> calls on it the history
  holds at most 30 entries and is the last 30 of the old history followed by the
  appended entries, in their order; the statement holds for every sequence, so for
  every prefix of one, that is after each call. Appending 40 entries to an empty
  history leaves exactly the last 30 of them.
\<close>

theorem add_message_history_cap:
  assumes "map_of ss sid = Some s" and "length (conversation_history s) \<le> 30"
  shows "\<exists>s'. map_of (add_messages ss sid calls) sid = Some s' \<and>
           length (conversation_history s') \<le> 30 \<and>
           conversation_history s' = slice_last 30 (conversation_history s @ map turn_of calls) \<and>
           (conversation_history s = [] \<longrightarrow> length calls = 40 \<longrightarrow>
              conversation_history s' = drop 10 (map turn_of calls) \<and>
              length (conversation_history s') = 30)"
proof -
  from add_messages_history [OF assms(1), of calls] obtain s' where
    s': "map_of (add_messages ss sid calls) sid = Some s'"
    and h: "conversation_history s' =
       (if calls = [] then conversation_history s
        else slice_last 30 (conversation_history s @ map turn_of calls))"
    by blast
  have eq: "conversation_history s' = slice_last 30 (conversation_history s @ map turn_of calls)"
    using h assms(2) by (simp add: slice_last_id)
  have len: "length (conversation_history s') \<le> 30"
    unfolding eq by (simp add: length_slice_last)
  have forty: "conversation_history s = [] \<longrightarrow> length calls = 40 \<longrightarrow>
      conversation_history s' = drop 10 (map turn_of calls) \<and> length (conversation_history s') = 30"
    unfolding eq by (simp add: slice_last_def)
  from s' len eq forty show ?thesis by blast
qed

theorem add_message_history_cap_witness:
  "map_of (snd (create_session [] ''s1'' ''chat'' None 100 100)) ''s1''
     = Some \<lparr>session_id = ''s1'', mode = ''chat'', conversation_history = [],
             mode_specific_data = initialize_mode_data ''chat'' [],
             created_at = 100, last_activity = 100\<rparr> \<and>
   (\<exists>s'. map_of (add_messages (snd (create_session [] ''s1'' ''chat'' None 100 100)) ''s1''
              (map (\<lambda>i. (''user'', ''hello'', real i, real i)) [0..<40])) ''s1'' = Some s' \<and>
         conversation_history s' =
           map (\<lambda>i. \<lparr>turn_role = ''user'', turn_text = ''hello'', turn_timestamp = real i\<rparr>)
             [10..<40] \<and>
         length (conversation_history s') = 30)"
proof -
  let ?s = "\<lparr>session_id = ''s1'', mode = ''chat'', conversation_history = [],
             mode_specific_data = initialize_mode_data ''chat'' [],
             created_at = 100, last_activity = 100\<rparr>"
  let ?calls = "map (\<lambda>i. (''user'', ''hello'', real i, real i)) [0..<40]"
  have h1: "map_of (snd (create_session [] ''s1'' ''chat'' None 100 100)) ''s1'' = Some ?s"
    by (simp add: create_session_def)
  have h2: "length (conversation_history ?s) \<le> 30" by simp
  have m: "drop 10 (map turn_of ?calls) =
      map (\<lambda>i. \<lparr>turn_role = ''user'', turn_text = ''hello'', turn_timestamp = real i\<rparr>) [10..<40]"
    by (simp add: drop_map turn_of_def comp_def)
  from add_message_history_cap [OF h1 h2, of ?calls] obtain s' where
    a: "map_of (add_messages (snd (create_session [] ''s1'' ''chat'' None 100 100)) ''s1'' ?calls) ''s1''
          = Some s'"
    and b: "conversation_history ?s = [] \<longrightarrow> length ?calls = 40 \<longrightarrow>
              conversation_history s' = drop 10 (map turn_of ?calls) \<and>
              length (conversation_history s') = 30"
    by (elim exE conjE)
  have c: "conversation_history s' = drop 10 (map turn_of ?calls) \<and>
              length (conversation_history s') = 30"
    using b by simp
  from h1 a c m show ?thesis by auto
qed

section \<open>The reaper\<close>

lemma delete_filter: "AList.delete k al = filter (\<lambda>(k', v). k' \<noteq> k) al"
  by (induction al) (auto simp: AList.delete_eq)

lemma delete_all_filter:
  "distinct ids \<Longrightarrow> set ids \<subseteq> fst ` set ss \<Longrightarrow>
   delete_all ids ss = Inr (filter (\<lambda>(k, v). k \<notin> set ids) ss)"
proof (induction ids arbitrary: ss)
  case Nil
  then show ?case by simp
next
  case (Cons sid ids)
  have inn: "sid \<in> fst ` set ss" using Cons.prems(2) by simp
  have d: "distinct ids" and nin: "sid \<notin> set ids" using Cons.prems(1) by simp_all
  have sub: "set ids \<subseteq> fst ` set (AList.delete sid ss)"
  proof
    fix k assume k: "k \<in> set ids"
    then have "k \<noteq> sid" using nin by auto
    moreover have "k \<in> fst ` set ss" using k Cons.prems(2) by auto
    ultimately show "k \<in> fst ` set (AList.delete sid ss)"
      by (force simp: delete_filter)
  qed
  have "delete_all (sid # ids) ss = delete_all ids (AList.delete sid ss)"
    using inn by (simp add: dict_del_def)
  also have "\<dots> = Inr (filter (\<lambda>(k, v). k \<notin> set ids) (AList.delete sid ss))"
    by (rule Cons.IH [OF d sub])
  also have "filter (\<lambda>(k, v). k \<notin> set ids) (AList.delete sid ss)
      = filter (\<lambda>(k, v). k \<notin> set (sid # ids)) ss"
    by (auto simp: delete_filter intro: filter_cong)
  finally show ?case .
qed

lemma set_expired_ids:
  "set (expired_ids now max_age ss) = {k. \<exists>s. (k, s) \<in> set ss \<and> now - last_activity s > max_age}"
  by (induction now max_age ss rule: expired_ids.induct) auto

lemma distinct_expired_ids:
  "distinct (map fst ss) \<Longrightarrow> distinct (expired_ids now max_age ss)"
  by (induction now max_age ss rule: expired_ids.induct) (auto simp: set_expired_ids rev_image_eqI)

lemma cleanup_filter:
  assumes "distinct (map fst ss)"
  shows "cleanup_old_sessions ss now max_age =
           Inr (filter (\<lambda>(k, s). \<not> now - last_activity s > max_age) ss)"
proof -
  have sub: "set (expired_ids now max_age ss) \<subseteq> fst ` set ss"
    by (force simp: set_expired_ids)
  have "filter (\<lambda>(k, v). k \<notin> set (expired_ids now max_age ss)) ss
      = filter (\<lambda>(k, s). \<not> now - last_activity s > max_age) ss"
  proof (rule filter_cong [OF refl])
    fix x assume x: "x \<in> set ss"
    obtain k s where ks: "x = (k, s)" by (cases x)
    have "k \<in> set (expired_ids now max_age ss) \<longleftrightarrow> now - last_activity s > max_age"
    proof
      assume "k \<in> set (expired_ids now max_age ss)"
      then obtain s' where s': "(k, s') \<in> set ss" "now - last_activity s' > max_age"
        by (auto simp: set_expired_ids)
      have "s' = s" using assms s'(1) x ks by (meson eq_key_imp_eq_value)
      then show "now - last_activity s > max_age" using s'(2) by simp
    next
      assume "now - last_activity s > max_age"
      then show "k \<in> set (expired_ids now max_age ss)"
        using x ks by (auto simp: set_expired_ids)
    qed
    then show "(case x of (k, v) \<Rightarrow> k \<notin> set (expired_ids now max_age ss))
             = (case x of (k, s) \<Rightarrow> \<not> now - last_activity s > max_age)"
      by (simp add: ks)
  qed
  then show ?thesis
    unfolding cleanup_old_sessions_def
    using delete_all_filter [OF distinct_expired_ids [OF assms] sub] by simp
qed

lemma map_of_filter_distinct:
  "distinct (map fst ss) \<Longrightarrow>
   map_of (filter (\<lambda>(k, s). P s) ss) k =
     (case map_of ss k of None \<Rightarrow> None | Some s \<Rightarrow> if P s then Some s else None)"
proof (induction ss)
  case Nil
  then show ?case by simp
next
  case (Cons x ss)
  obtain k' s' where x: "x = (k', s')" by (cases x)
  have notin: "map_of ss k' = None"
    using Cons.prems by (simp add: x map_of_eq_None_iff)
  show ?case using Cons notin by (auto simp: x split: option.splits)
qed

text \<open>
  Claim C7. On a store (a dictionary: its keys are distinct) \<^verbatim>\<open>cleanup_old_sessions\<close>
  returns without raising, and a session of the store is removed if and only if
  \<open>now - last_activity > max_age\<close>: a session at the boundary
  \<open>now - last_activity = max_age\<close> stays, every session that stays is unchanged, and
  no session is added.
\<close>

theorem cleanup_old_sessions_reaps_exactly:
  assumes "distinct (map fst ss)"
  shows "\<exists>ss'. cleanup_old_sessions ss now max_age = Inr ss' \<and>
           (\<forall>sid s. map_of ss sid = Some s \<longrightarrow>
              (map_of ss' sid = None \<longleftrightarrow> now - last_activity s > max_age) \<and>
              (\<not> now - last_activity s > max_age \<longrightarrow> map_of ss' sid = Some s) \<and>
              (now - last_activity s = max_age \<longrightarrow> map_of ss' sid = Some s)) \<and>
           (\<forall>sid. map_of ss sid = None \<longrightarrow> map_of ss' sid = None)"
proof -
  let ?ss' = "filter (\<lambda>(k, s). \<not> now - last_activity s > max_age) ss"
  have m: "\<And>k. map_of ?ss' k =
     (case map_of ss k of None \<Rightarrow> None
      | Some s \<Rightarrow> if \<not> now - last_activity s > max_age then Some s else None)"
    using map_of_filter_distinct [OF assms, of "\<lambda>s. \<not> now - last_activity s > max_age"] by simp
  show ?thesis
    using cleanup_filter [OF assms, of now max_age] by (auto simp: m)
qed

theorem cleanup_old_sessions_reaps_exactly_witness:
  "distinct (map fst example_store) \<and>
   (\<exists>ss'. cleanup_old_sessions example_store 4000 3600 = Inr ss' \<and>
      map_of ss' ''a'' = None \<and>
      map_of ss' ''b'' = Some (example_session ''b'' 400) \<and>
      map_of ss' ''c'' = Some (example_session ''c'' 3000) \<and>
      map_of ss' ''d'' = None)"
proof -
  have d: "distinct (map fst example_store)"
    by (simp add: example_store_def)
  have a: "map_of example_store ''a'' = Some (example_session ''a'' 100)"
    and b: "map_of example_store ''b'' = Some (example_session ''b'' 400)"
    and c: "map_of example_store ''c'' = Some (example_session ''c'' 3000)"
    and n: "map_of example_store ''d'' = None"
    by (simp_all add: example_store_def)
  from cleanup_old_sessions_reaps_exactly [OF d, of 4000 3600] obtain ss' where
    r: "cleanup_old_sessions example_store 4000 3600 = Inr ss'"
    and p: "\<And>sid s. map_of example_store sid = Some s \<Longrightarrow>
              (map_of ss' sid = None \<longleftrightarrow> 4000 - last_activity s > 3600) \<and>
              (\<not> 4000 - last_activity s > 3600 \<longrightarrow> map_of ss' sid = Some s) \<and>
              (4000 - last_activity s = 3600 \<longrightarrow> map_of ss' sid = Some s)"
    and q: "\<And>sid. map_of example_store sid = None \<Longrightarrow> map_of ss' sid = None"
    by blast
  have "map_of ss' ''a'' = None" using p [OF a] by (simp add: example_session_def)
  moreover have "map_of ss' ''b'' = Some (example_session ''b'' 400)"
    using p [OF b] by (simp add: example_session_def)
  moreover have "map_of ss' ''c'' = Some (example_session ''c'' 3000)"
    using p [OF c] by (simp add: example_session_def)
  moreover have "map_of ss' ''d'' = None" using q [OF n] .
  ultimately show ?thesis using d r by blast
qed

section \<open>Operations on a session that is not in the store\<close>

text \<open>
  Claim C9. For an identifier that is not in the store, \<^verbatim>\<open>get_session\<close> returns
  \<^verbatim>\<open>None\<close> and \<^verbatim>\<open>add_message\<close>, \<^verbatim>\<open>change_mode\<close>, \<^verbatim>\<open>update_mode_data\<close> and
  \<^verbatim>\<open>delete_session\<close> return the store as it was: the keys and every session are
  unchanged. None of the five has a raising branch.
\<close>

theorem absent_session_is_no_op:
  assumes "map_of ss sid = None"
  shows "get_session ss sid = None \<and>
         add_message ss sid r txt t_msg t_active = ss \<and>
         change_mode ss sid new_mode config t_active = ss \<and>
         update_mode_data ss sid mode_data = ss \<and>
         delete_session ss sid = ss"
proof -
  have "sid \<notin> fst ` set ss" using assms by (simp add: map_of_eq_None_iff)
  then show ?thesis
    using assms
    by (simp add: get_session_def add_message_def change_mode_def update_mode_data_def
        delete_session_def)
qed

theorem absent_session_is_no_op_witness:
  "map_of example_store ''gone'' = None \<and>
   get_session example_store ''gone'' = None \<and>
   add_message example_store ''gone'' ''user'' ''hello'' 5000 5001 = example_store \<and>
   change_mode example_store ''gone'' ''debate'' None 5002 = example_store \<and>
   update_mode_data example_store ''gone'' [(''question_index'', PInt 1)] = example_store \<and>
   delete_session example_store ''gone'' = example_store"
proof -
  have h: "map_of example_store ''gone'' = None"
    by (simp add: example_store_def)
  show ?thesis
    using h absent_session_is_no_op [OF h] by simp
qed

section \<open>Modes and their initial data\<close>

text \<open>
  Claim C10. For every mode string other than \<^verbatim>\<open>'interview'\<close> and \<^verbatim>\<open>'debate'\<close>,
  \<^verbatim>\<open>create_session\<close> stores a session with that mode and the chat data
  \<^verbatim>\<open>{'user_preferences': config.get('preferences', {}), 'emotional_tone': 'friendly'}\<close>,
  and \<^verbatim>\<open>change_mode\<close> on a session of the store does the same: neither checks that
  the mode is one of chat, interview and debate.
\<close>

theorem unrecognized_mode_gets_chat_context:
  assumes "m \<noteq> ''interview''" and "m \<noteq> ''debate''"
  shows "create_session ss new_id m config t_created t_active =
           (new_id,
            AList.update new_id
              \<lparr>session_id = new_id, mode = m, conversation_history = [],
               mode_specific_data =
                 [(''user_preferences'',
                     dict_get (case config of None \<Rightarrow> [] | Some c \<Rightarrow> c) ''preferences'' (PDict [])),
                  (''emotional_tone'', PStr ''friendly'')],
               created_at = t_created, last_activity = t_active\<rparr> ss) \<and>
         (\<exists>s. get_session (snd (create_session ss new_id m config t_created t_active)) new_id = Some s \<and>
              mode s = m \<and>
              mode_specific_data s =
                 [(''user_preferences'',
                     dict_get (case config of None \<Rightarrow> [] | Some c \<Rightarrow> c) ''preferences'' (PDict [])),
                  (''emotional_tone'', PStr ''friendly'')]) \<and>
         (\<forall>s. map_of ss sid = Some s \<longrightarrow>
            map_of (change_mode ss sid m config t_active) sid =
              Some (s\<lparr>mode := m,
                      mode_specific_data :=
                        [(''user_preferences'',
                            dict_get (case config of None \<Rightarrow> [] | Some c \<Rightarrow> c) ''preferences'' (PDict [])),
                         (''emotional_tone'', PStr ''friendly'')],
                      last_activity := t_active\<rparr>))"
  using assms
  by (simp add: create_session_def change_mode_def initialize_mode_data_def get_session_def
      update_conv' Let_def)

theorem unrecognized_mode_gets_chat_context_witness:
  "''karaoke'' \<noteq> ''interview'' \<and> ''karaoke'' \<noteq> ''debate'' \<and>
   (\<exists>s. get_session (snd (create_session example_store ''k1'' ''karaoke''
              (Some [(''topic'', PStr ''songs'')]) 5000 5001)) ''k1'' = Some s \<and>
        mode s = ''karaoke'' \<and>
        mode_specific_data s =
          [(''user_preferences'', PDict []), (''emotional_tone'', PStr ''friendly'')])"
proof -
  have h1: "''karaoke'' \<noteq> ''interview''" and h2: "''karaoke'' \<noteq> ''debate''" by simp_all
  have "\<exists>s. get_session (snd (create_session example_store ''k1'' ''karaoke''
              (Some [(''topic'', PStr ''songs'')]) 5000 5001)) ''k1'' = Some s \<and>
        mode s = ''karaoke'' \<and>
        mode_specific_data s =
          [(''user_preferences'',
              dict_get (case Some [(''topic'', PStr ''songs'')] of None \<Rightarrow> [] | Some c \<Rightarrow> c)
                ''preferences'' (PDict [])),
           (''emotional_tone'', PStr ''friendly'')]"
    using unrecognized_mode_gets_chat_context [OF h1 h2, where ss = example_store
      and new_id = "''k1''" and config = "Some [(''topic'', PStr ''songs'')]"
      and t_created = 5000 and t_active = 5001 and sid = "''a''"]
    by blast
  then show ?thesis by (simp add: dict_get_def)
qed

text \<open>
  Claim C6. With an empty configuration \<^verbatim>\<open>_initialize_mode_data\<close> stores the company
  \<^verbatim>\<open>'Tech Company'\<close> and the stance \<^verbatim>\<open>'pro'\<close>, which are not the defaults
  \<^verbatim>\<open>'a leading tech company'\<close> and \<^verbatim>\<open>'PRO'\<close> that \<^verbatim>\<open>_get_system_prompt\<close> uses
  for the same options.
\<close>

theorem initialize_mode_data_company_stance_defaults:
  "dict_get (initialize_mode_data ''interview'' []) ''company'' PNone = PStr ''Tech Company'' \<and>
   dict_get (initialize_mode_data ''debate'' []) ''stance'' PNone = PStr ''pro'' \<and>
   PStr ''Tech Company'' \<noteq> PStr ''a leading tech company'' \<and>
   PStr ''pro'' \<noteq> PStr ''PRO'' \<and>
   get_system_prompt ''interview'' (Some []) =
     Inr (interview_prompt (PStr ''Software Engineer'') (PStr ''a leading tech company'') (PInt 5) 1) \<and>
   get_system_prompt ''debate'' (Some []) =
     Inr (debate_prompt (PStr ''AI in society'') (PStr ''PRO''))"
  by (simp add: initialize_mode_data_def dict_get_def get_system_prompt_def py_add_one_def)

lemma initialize_mode_data_other_defaults:
  "dict_get (initialize_mode_data ''interview'' []) ''role'' PNone = PStr ''Software Engineer'' \<and>
   dict_get (initialize_mode_data ''interview'' []) ''total_questions'' PNone = PInt 5 \<and>
   dict_get (initialize_mode_data ''debate'' []) ''topic'' PNone = PStr ''AI in society'' \<and>
   dict_get (initialize_mode_data ''chat'' []) ''user_preferences'' PNone = PDict []"
  by (simp add: initialize_mode_data_def dict_get_def)

section \<open>The time of the last activity\<close>

text \<open>
  Claim C8. \<^verbatim>\<open>update_mode_data\<close> on a session whose last activity was at time 100
  merges the patch and leaves \<^verbatim>\<open>last_activity\<close> at 100, while \<^verbatim>\<open>add_message\<close> and
  \<^verbatim>\<open>change_mode\<close> on the same session store the clock reading they make.
\<close>

theorem update_mode_data_keeps_last_activity:
  "map_of (update_mode_data [(''a'', example_session ''a'' 100)] ''a''
             [(''question_index'', PInt 1)]) ''a''
     = Some ((example_session ''a'' 100)
               \<lparr>mode_specific_data :=
                  [(''user_preferences'', PDict []), (''emotional_tone'', PStr ''friendly''),
                   (''question_index'', PInt 1)]\<rparr>) \<and>
   last_activity ((example_session ''a'' 100)
               \<lparr>mode_specific_data :=
                  [(''user_preferences'', PDict []), (''emotional_tone'', PStr ''friendly''),
                   (''question_index'', PInt 1)]\<rparr>) = 100 \<and>
   (\<exists>s. map_of (add_message [(''a'', example_session ''a'' 100)] ''a'' ''user'' ''hi'' 200 201) ''a''
           = Some s \<and> last_activity s = 201) \<and>
   (\<exists>s. map_of (change_mode [(''a'', example_session ''a'' 100)] ''a'' ''debate'' None 200) ''a''
           = Some s \<and> last_activity s = 200)"
  by (simp add: update_mode_data_def add_message_def change_mode_def example_session_def
      dict_update_def initialize_mode_data_def dict_get_def Let_def)

section \<open>What the store operations keep\<close>

text \<open>
  The keys of the store stay distinct under every operation, so the store stays a
  dictionary: this is the hypothesis of the reaper's theorem.
\<close>

theorem store_keys_stay_distinct:
  assumes "distinct (map fst ss)"
  shows "distinct (map fst (snd (create_session ss new_id m config t_created t_active))) \<and>
         distinct (map fst (add_message ss sid r txt t_msg t_active)) \<and>
         distinct (map fst (change_mode ss sid m config t_active)) \<and>
         distinct (map fst (update_mode_data ss sid mode_data)) \<and>
         distinct (map fst (delete_session ss sid)) \<and>
         (\<exists>ss'. cleanup_old_sessions ss now max_age = Inr ss' \<and> distinct (map fst ss'))"
proof -
  have c: "cleanup_old_sessions ss now max_age =
           Inr (filter (\<lambda>(k, s). \<not> now - last_activity s > max_age) ss)"
    by (rule cleanup_filter [OF assms])
  have d: "distinct (map fst (filter (\<lambda>(k, s). \<not> now - last_activity s > max_age) ss))"
    using assms by (rule distinct_map_filter)
  show ?thesis
    using assms c d
    by (simp add: create_session_def add_message_def change_mode_def update_mode_data_def
        delete_session_def distinct_update distinct_delete Let_def split: option.splits)
qed

theorem store_keys_stay_distinct_witness:
  "distinct (map fst example_store) \<and>
   distinct (map fst (snd (create_session example_store ''d'' ''debate'' None 5000 5001))) \<and>
   distinct (map fst (add_message example_store ''a'' ''user'' ''hello'' 5000 5001)) \<and>
   (\<exists>ss'. cleanup_old_sessions example_store 4000 3600 = Inr ss' \<and> distinct (map fst ss'))"
proof -
  have d: "distinct (map fst example_store)" by (simp add: example_store_def)
  from store_keys_stay_distinct [OF d, of "''d''" "''debate''" None 5000 5001 "''a''" "''user''"
      "''hello''" 5000 "[]" 4000 3600]
  show ?thesis using d by simp
qed

text \<open>
  On a session of the store, \<^verbatim>\<open>add_message\<close> and \<^verbatim>\<open>change_mode\<close> store their clock
  reading as \<^verbatim>\<open>last_activity\<close>, which therefore does not decrease when the clock does
  not run backwards; \<^verbatim>\<open>change_mode\<close> replaces the mode and puts the initial data of the
  new mode in place of the old mode data; \<^verbatim>\<open>update_mode_data\<close> leaves
  \<^verbatim>\<open>last_activity\<close> as it was.
\<close>

theorem add_message_change_mode_set_last_activity:
  assumes "map_of ss sid = Some s"
  shows "(\<exists>s'. map_of (add_message ss sid r txt t_msg t_active) sid = Some s' \<and>
               last_activity s' = t_active \<and>
               (last_activity s \<le> t_active \<longrightarrow> last_activity s \<le> last_activity s')) \<and>
         (\<exists>s'. map_of (change_mode ss sid new_mode config t_active) sid = Some s' \<and>
               last_activity s' = t_active \<and>
               mode s' = new_mode \<and>
               mode_specific_data s' =
                 initialize_mode_data new_mode (case config of None \<Rightarrow> [] | Some c \<Rightarrow> c) \<and>
               (last_activity s \<le> t_active \<longrightarrow> last_activity s \<le> last_activity s')) \<and>
         (\<exists>s'. map_of (update_mode_data ss sid mode_data) sid = Some s' \<and>
               last_activity s' = last_activity s)"
  using assms
  by (simp add: add_message_def change_mode_def update_mode_data_def update_conv' Let_def)

theorem add_message_change_mode_set_last_activity_witness:
  "map_of example_store ''a'' = Some (example_session ''a'' 100) \<and>
   (\<exists>s'. map_of (add_message example_store ''a'' ''user'' ''hello'' 5000 5001) ''a'' = Some s' \<and>
         last_activity s' = 5001) \<and>
   (\<exists>s'. map_of (change_mode example_store ''a'' ''debate'' (Some [(''topic'', PStr ''X'')]) 5001) ''a''
           = Some s' \<and>
         last_activity s' = 5001 \<and> mode s' = ''debate'' \<and>
         mode_specific_data s' =
           [(''topic'', PStr ''X''), (''stance'', PStr ''pro''),
            (''arguments_made'', PList []), (''counter_arguments'', PList [])])"
proof -
  have h: "map_of example_store ''a'' = Some (example_session ''a'' 100)"
    by (simp add: example_store_def)
  note t = add_message_change_mode_set_last_activity [OF h, of "''user''" "''hello''" 5000 5001
      "''debate''" "Some [(''topic'', PStr ''X'')]" "[]"]
  have a: "\<exists>s'. map_of (add_message example_store ''a'' ''user'' ''hello'' 5000 5001) ''a'' = Some s' \<and>
         last_activity s' = 5001"
    using t [THEN conjunct1] by auto
  have b: "\<exists>s'. map_of (change_mode example_store ''a'' ''debate'' (Some [(''topic'', PStr ''X'')]) 5001) ''a''
           = Some s' \<and>
         last_activity s' = 5001 \<and> mode s' = ''debate'' \<and>
         mode_specific_data s' =
           [(''topic'', PStr ''X''), (''stance'', PStr ''pro''),
            (''arguments_made'', PList []), (''counter_arguments'', PList [])]"
    using t [THEN conjunct2, THEN conjunct1]
    by (auto simp: initialize_mode_data_def dict_get_def)
  from h a b show ?thesis by (intro conjI)
qed

section \<open>The question index of an interview\<close>

lemma process_mode_logic_interview:
  assumes "dict_get md ''question_index'' (PInt 0) = PInt q"
    and "dict_get md ''total_questions'' (PInt 5) = PInt t"
  shows "process_mode_logic ''interview'' md u reply =
           (if CHR ''?'' \<in> set reply then Inr [(''question_index'', PInt (min (q + 1) t))]
            else Inr [])"
  using assms by (simp add: process_mode_logic_def py_add_one_def py_min_def min_def)

lemma dict_get_update_same: "dict_get (AList.update k v d) k dflt = v"
  by (simp add: dict_get_def update_conv')

lemma dict_get_update_other: "k' \<noteq> k \<Longrightarrow> dict_get (AList.update k v d) k' dflt = dict_get d k' dflt"
  by (simp add: dict_get_def update_conv')

lemma interview_step:
  assumes "dict_get md ''question_index'' (PInt 0) = PInt q"
    and "dict_get md ''total_questions'' (PInt 5) = PInt t"
  shows "mode_data_after ''interview'' md ((u, reply) # turns) =
           mode_data_after ''interview''
             (if CHR ''?'' \<in> set reply
              then AList.update ''question_index'' (PInt (min (q + 1) t)) md else md) turns"
  using process_mode_logic_interview [OF assms, of u reply]
  by (simp add: dict_update_def)

lemma interview_index_bounds:
  assumes "dict_get md ''question_index'' (PInt 0) = PInt q"
    and "dict_get md ''total_questions'' (PInt 5) = PInt t"
    and "q \<le> t"
  shows "\<exists>q'. dict_get (mode_data_after ''interview'' md turns) ''question_index'' (PInt 0) = PInt q' \<and>
              dict_get (mode_data_after ''interview'' md turns) ''total_questions'' (PInt 5) = PInt t \<and>
              q \<le> q' \<and> q' \<le> t"
  using assms
proof (induction turns arbitrary: md q)
  case Nil
  then show ?case by simp
next
  case (Cons turn turns)
  obtain u reply where turn: "turn = (u, reply)" by (cases turn)
  show ?case
  proof (cases "CHR ''?'' \<in> set reply")
    case True
    let ?md = "AList.update ''question_index'' (PInt (min (q + 1) t)) md"
    have q1: "dict_get ?md ''question_index'' (PInt 0) = PInt (min (q + 1) t)"
      by (rule dict_get_update_same)
    have t1: "dict_get ?md ''total_questions'' (PInt 5) = PInt t"
      using Cons.prems(2) by (simp add: dict_get_update_other)
    have le: "min (q + 1) t \<le> t" by simp
    from Cons.IH [OF q1 t1 le] obtain q' where
      "dict_get (mode_data_after ''interview'' ?md turns) ''question_index'' (PInt 0) = PInt q'"
      "dict_get (mode_data_after ''interview'' ?md turns) ''total_questions'' (PInt 5) = PInt t"
      "min (q + 1) t \<le> q'" "q' \<le> t"
      by blast
    moreover have "q \<le> min (q + 1) t" using Cons.prems(3) by simp
    ultimately show ?thesis
      using True interview_step [OF Cons.prems(1,2), of u reply turns]
      by (auto simp: turn)
  next
    case False
    from Cons.IH [OF Cons.prems] show ?thesis
      using False interview_step [OF Cons.prems(1,2), of u reply turns]
      by (simp add: turn)
  qed
qed

lemma mode_data_after_append:
  "mode_data_after m md (xs @ ys) = mode_data_after m (mode_data_after m md xs) ys"
  by (induction m md xs rule: mode_data_after.induct) (auto split: sum.splits)

text \<open>
  Counterexample to claim C4 as stated: a configuration with
  \<^verbatim>\<open>totalQuestions = -1\<close> gives an interview whose question index
  starts at 0, above the total, and drops to \<open>-1\<close> with the first reply that has a
  question mark; with \<^verbatim>\<open>totalQuestions = '5'\<close> (a string) the patch raises.
\<close>

theorem interview_index_decreases_counterexample:
  "dict_get (initialize_mode_data ''interview'' [(''totalQuestions'', PInt (- 1))])
      ''question_index'' (PInt 0) = PInt 0 \<and>
   dict_get (initialize_mode_data ''interview'' [(''totalQuestions'', PInt (- 1))])
      ''total_questions'' (PInt 5) = PInt (- 1) \<and>
   process_mode_logic ''interview''
      (initialize_mode_data ''interview'' [(''totalQuestions'', PInt (- 1))]) ''hello'' ''Why?''
     = Inr [(''question_index'', PInt (- 1))] \<and>
   dict_get (mode_data_after ''interview''
      (initialize_mode_data ''interview'' [(''totalQuestions'', PInt (- 1))]) [(''hello'', ''Why?'')])
      ''question_index'' (PInt 0) = PInt (- 1) \<and>
   \<not> (0::int) \<le> - 1 \<and>
   process_mode_logic ''interview''
      (initialize_mode_data ''interview'' [(''totalQuestions'', PStr ''5'')]) ''hello'' ''Why?''
     = Inl TypeError"
  by (simp add: initialize_mode_data_def process_mode_logic_def dict_get_def py_add_one_def
      py_min_def dict_update_def)

text \<open>
  Claim C4, amended. In interview mode, when the question index and the total are
  integers (a missing key reads as 0 and 5): for a reply with a question mark the patch
  sets \<^verbatim>\<open>question_index\<close> to \<open>min (question_index + 1) total_questions\<close>, for any other
  reply the patch is empty and the index stays. When moreover the index is at most the
  total at the start (as for index 0 and a total that is not negative), then along any
  sequence of turns the index never decreases and never exceeds the total. From index 0
  with total 5, three question replies reach 3, a reply without a question keeps 3, and
  nine question replies stop at 5.
\<close>

theorem interview_question_index_progress:
  assumes "dict_get md ''question_index'' (PInt 0) = PInt q"
    and "dict_get md ''total_questions'' (PInt 5) = PInt t"
  shows "process_mode_logic ''interview'' md u reply =
           (if CHR ''?'' \<in> set reply then Inr [(''question_index'', PInt (min (q + 1) t))]
            else Inr []) \<and>
         (q \<le> t \<longrightarrow>
            (\<exists>q1 q2.
               dict_get (mode_data_after ''interview'' md turns1) ''question_index'' (PInt 0) = PInt q1 \<and>
               dict_get (mode_data_after ''interview'' md (turns1 @ turns2)) ''question_index'' (PInt 0)
                 = PInt q2 \<and>
               q \<le> q1 \<and> q1 \<le> q2 \<and> q2 \<le> t)) \<and>
         dict_get (mode_data_after ''interview'' (initialize_mode_data ''interview'' [])
            [(''a'', ''Why?''), (''b'', ''How?''), (''c'', ''What?'')])
            ''question_index'' (PInt 0) = PInt 3 \<and>
         dict_get (mode_data_after ''interview'' (initialize_mode_data ''interview'' [])
            [(''a'', ''Why?''), (''b'', ''How?''), (''c'', ''What?''), (''d'', ''Good.'')])
            ''question_index'' (PInt 0) = PInt 3 \<and>
         dict_get (mode_data_after ''interview'' (initialize_mode_data ''interview'' [])
            (replicate 9 (''a'', ''Why?''))) ''question_index'' (PInt 0) = PInt 5"
proof -
  have patch: "process_mode_logic ''interview'' md u reply =
           (if CHR ''?'' \<in> set reply then Inr [(''question_index'', PInt (min (q + 1) t))]
            else Inr [])"
    by (rule process_mode_logic_interview [OF assms])
  have mono: "\<exists>q1 q2.
               dict_get (mode_data_after ''interview'' md turns1) ''question_index'' (PInt 0) = PInt q1 \<and>
               dict_get (mode_data_after ''interview'' md (turns1 @ turns2)) ''question_index'' (PInt 0)
                 = PInt q2 \<and>
               q \<le> q1 \<and> q1 \<le> q2 \<and> q2 \<le> t" if le: "q \<le> t"
  proof -
    let ?md1 = "mode_data_after ''interview'' md turns1"
    from interview_index_bounds [OF assms le, of turns1] obtain q1 where
      q1: "dict_get ?md1 ''question_index'' (PInt 0) = PInt q1"
      and t1: "dict_get ?md1 ''total_questions'' (PInt 5) = PInt t"
      and b1: "q \<le> q1" "q1 \<le> t"
      by blast
    from interview_index_bounds [OF q1 t1 b1(2), of turns2] obtain q2 where
      q2: "dict_get (mode_data_after ''interview'' ?md1 turns2) ''question_index'' (PInt 0) = PInt q2"
      and b2: "q1 \<le> q2" "q2 \<le> t"
      by blast
    show ?thesis
      using q1 q2 b1 b2 by (auto simp: mode_data_after_append)
  qed
  have e3: "dict_get (mode_data_after ''interview'' (initialize_mode_data ''interview'' [])
            [(''a'', ''Why?''), (''b'', ''How?''), (''c'', ''What?'')])
            ''question_index'' (PInt 0) = PInt 3"
    by (simp add: initialize_mode_data_def process_mode_logic_def dict_get_def py_add_one_def
        py_min_def dict_update_def)
  have e4: "dict_get (mode_data_after ''interview'' (initialize_mode_data ''interview'' [])
            [(''a'', ''Why?''), (''b'', ''How?''), (''c'', ''What?''), (''d'', ''Good.'')])
            ''question_index'' (PInt 0) = PInt 3"
    by (simp add: initialize_mode_data_def process_mode_logic_def dict_get_def py_add_one_def
        py_min_def dict_update_def)
  have e9: "dict_get (mode_data_after ''interview'' (initialize_mode_data ''interview'' [])
            (replicate 9 (''a'', ''Why?''))) ''question_index'' (PInt 0) = PInt 5"
    by (simp add: numeral_eq_Suc initialize_mode_data_def process_mode_logic_def dict_get_def
        py_add_one_def py_min_def dict_update_def)
  from patch mono e3 e4 e9 show ?thesis by blast
qed

theorem interview_question_index_progress_witness:
  "dict_get (initialize_mode_data ''interview'' []) ''question_index'' (PInt 0) = PInt 0 \<and>
   dict_get (initialize_mode_data ''interview'' []) ''total_questions'' (PInt 5) = PInt 5 \<and>
   process_mode_logic ''interview'' (initialize_mode_data ''interview'' []) ''hello'' ''Why?''
     = Inr [(''question_index'', PInt 1)] \<and>
   process_mode_logic ''interview'' (initialize_mode_data ''interview'' []) ''hello'' ''Fine.''
     = Inr [] \<and>
   (\<exists>q1 q2.
      dict_get (mode_data_after ''interview'' (initialize_mode_data ''interview'' [])
         [(''a'', ''Why?'')]) ''question_index'' (PInt 0) = PInt q1 \<and>
      dict_get (mode_data_after ''interview'' (initialize_mode_data ''interview'' [])
         ([(''a'', ''Why?'')] @ [(''b'', ''Fine.''), (''c'', ''Next?'')])) ''question_index'' (PInt 0)
        = PInt q2 \<and>
      0 \<le> q1 \<and> q1 \<le> q2 \<and> q2 \<le> 5)"
proof -
  have h1: "dict_get (initialize_mode_data ''interview'' []) ''question_index'' (PInt 0) = PInt 0"
    and h2: "dict_get (initialize_mode_data ''interview'' []) ''total_questions'' (PInt 5) = PInt 5"
    by (simp_all add: initialize_mode_data_def dict_get_def)
  have le: "(0::int) \<le> 5" by simp
  note a = interview_question_index_progress [OF h1 h2, of "''hello''" "''Why?''"
      "[(''a'', ''Why?'')]" "[(''b'', ''Fine.''), (''c'', ''Next?'')]"]
  note b = interview_question_index_progress [OF h1 h2, of "''hello''" "''Fine.''" "[]" "[]"]
  have p1: "process_mode_logic ''interview'' (initialize_mode_data ''interview'' []) ''hello'' ''Why?''
     = Inr [(''question_index'', PInt 1)]"
    using a by simp
  have p2: "process_mode_logic ''interview'' (initialize_mode_data ''interview'' []) ''hello'' ''Fine.''
     = Inr []"
    using b by simp
  have m: "\<exists>q1 q2.
      dict_get (mode_data_after ''interview'' (initialize_mode_data ''interview'' [])
         [(''a'', ''Why?'')]) ''question_index'' (PInt 0) = PInt q1 \<and>
      dict_get (mode_data_after ''interview'' (initialize_mode_data ''interview'' [])
         ([(''a'', ''Why?'')] @ [(''b'', ''Fine.''), (''c'', ''Next?'')])) ''question_index'' (PInt 0)
        = PInt q2 \<and>
      0 \<le> q1 \<and> q1 \<le> q2 \<and> q2 \<le> 5"
    using a le by blast
  from h1 h2 p1 p2 m show ?thesis by blast
qed

section \<open>One turn of the conversation\<close>

lemma map_of_add_message_other:
  "k \<noteq> sid \<Longrightarrow> map_of (add_message ss sid r txt t_msg t_active) k = map_of ss k"
  by (simp add: add_message_def Let_def update_conv' split: option.splits)

lemma map_of_update_mode_data:
  "map_of ss sid = Some s \<Longrightarrow>
   map_of (update_mode_data ss sid patch) sid =
     Some (s\<lparr>mode_specific_data := dict_update (mode_specific_data s) patch\<rparr>)"
  by (simp add: update_mode_data_def update_conv')

lemma map_of_update_mode_data_other:
  "k \<noteq> sid \<Longrightarrow> map_of (update_mode_data ss sid patch) k = map_of ss k"
  by (simp add: update_mode_data_def update_conv' split: option.splits)

lemma handle_text_message_failure:
  assumes conn: "map_of (connection_sessions (manager st)) client_id = Some sid"
    and sess: "map_of (store st) sid = Some s"
    and text1: "dict_get data ''text'' (PStr []) = PStr raw"
    and text2: "strip raw \<noteq> []"
    and fail: "generate_response groq (strip raw)
                 (slice_last 30 (conversation_history s
                    @ [\<lparr>turn_role = ''user'', turn_text = strip raw, turn_timestamp = clock 0\<rparr>]))
                 (mode s) (Some (mode_specific_data s)) = (reqs, Inl e)"
  shows "handle_text_message groq clock st client_id data =
           send_error
             ((send_json (st\<lparr>store := add_message (store st) sid ''user'' (strip raw) (clock 0) (clock 1)\<rparr>)
                client_id (AiThinking ''generating''))
              \<lparr>llm_requests := llm_requests st @ reqs\<rparr>) client_id e"
  using conn text1 text2 fail map_of_add_message [OF sess, of "''user''" "strip raw" "clock 0" "clock 1"]
  by (simp add: handle_text_message_def Let_def get_session_def send_json_def)

lemma handle_text_message_success:
  assumes conn: "map_of (connection_sessions (manager st)) client_id = Some sid"
    and sess: "map_of (store st) sid = Some s"
    and text1: "dict_get data ''text'' (PStr []) = PStr raw"
    and text2: "strip raw \<noteq> []"
    and ok: "generate_response groq (strip raw)
                 (slice_last 30 (conversation_history s
                    @ [\<lparr>turn_role = ''user'', turn_text = strip raw, turn_timestamp = clock 0\<rparr>]))
                 (mode s) (Some (mode_specific_data s)) = (reqs, Inr resp)"
  shows "handle_text_message groq clock st client_id data =
           send_json
             ((send_json (st\<lparr>store := add_message (store st) sid ''user'' (strip raw) (clock 0) (clock 1)\<rparr>)
                 client_id (AiThinking ''generating''))
              \<lparr>llm_requests := llm_requests st @ reqs,
                store :=
                  add_message
                    (if resp_mode_data resp \<noteq> []
                     then update_mode_data
                            (add_message (store st) sid ''user'' (strip raw) (clock 0) (clock 1)) sid
                            (resp_mode_data resp)
                     else add_message (store st) sid ''user'' (strip raw) (clock 0) (clock 1))
                    sid ''ai'' (resp_text resp) (clock 2) (clock 3)\<rparr>)
             client_id
             (AiResponse (resp_text resp) (text_to_speech (resp_text resp)) (resp_mode_data resp)
                (trunc_int (clock 4 * 1000)))"
  using conn text1 text2 ok map_of_add_message [OF sess, of "''user''" "strip raw" "clock 0" "clock 1"]
  by (simp add: handle_text_message_def Let_def get_session_def send_json_def)

lemma slice_last_slice_last: "m \<le> n \<Longrightarrow> slice_last m (slice_last n xs) = slice_last m xs"
proof -
  assume "m \<le> n"
  then have "length xs - (length xs - n) - m + (length xs - n) = length xs - m" by arith
  then show ?thesis by (simp add: slice_last_def)
qed

lemma slice_last_suffix:
  assumes "length ys \<le> n"
  shows "slice_last n (xs @ ys) = drop (length xs + length ys - n) xs @ ys"
  using assms by (simp add: slice_last_def)

lemma generate_response_requests:
  assumes "client groq = Some c"
    and "get_system_prompt m (Some md) = Inr sp"
  shows "fst (generate_response groq user_message history m (Some md)) =
           [build_messages sp history user_message]"
  using assms
  by (simp add: generate_response_def Let_def split: llm_reply.splits option.splits sum.splits)

lemma handle_text_message_requests:
  assumes conn: "map_of (connection_sessions (manager st)) client_id = Some sid"
    and sess: "map_of (store st) sid = Some s"
    and text1: "dict_get data ''text'' (PStr []) = PStr raw"
    and text2: "strip raw \<noteq> []"
  shows "llm_requests (handle_text_message groq clock st client_id data) =
           llm_requests st @
           fst (generate_response groq (strip raw)
                 (slice_last 30 (conversation_history s
                    @ [\<lparr>turn_role = ''user'', turn_text = strip raw, turn_timestamp = clock 0\<rparr>]))
                 (mode s) (Some (mode_specific_data s)))"
proof -
  obtain reqs res where g: "generate_response groq (strip raw)
                 (slice_last 30 (conversation_history s
                    @ [\<lparr>turn_role = ''user'', turn_text = strip raw, turn_timestamp = clock 0\<rparr>]))
                 (mode s) (Some (mode_specific_data s)) = (reqs, res)"
    by (cases "generate_response groq (strip raw)
                 (slice_last 30 (conversation_history s
                    @ [\<lparr>turn_role = ''user'', turn_text = strip raw, turn_timestamp = clock 0\<rparr>]))
                 (mode s) (Some (mode_specific_data s))")
  show ?thesis
  proof (cases res)
    case (Inl e)
    then show ?thesis
      using handle_text_message_failure [OF conn sess text1 text2, of groq clock reqs e] g
      by (simp add: send_error_def send_json_def)
  next
    case (Inr resp)
    then show ?thesis
      using handle_text_message_success [OF conn sess text1 text2, of groq clock reqs resp] g
      by (simp add: send_json_def)
  qed
qed

lemma handle_text_message_failure_session:
  assumes conn: "map_of (connection_sessions (manager st)) client_id = Some sid"
    and sess: "map_of (store st) sid = Some s"
    and active: "client_id \<in> set (active_connections (manager st))"
    and text1: "dict_get data ''text'' (PStr []) = PStr raw"
    and text2: "strip raw \<noteq> []"
    and fail: "snd (generate_response groq (strip raw)
                 (slice_last 30 (conversation_history s
                    @ [\<lparr>turn_role = ''user'', turn_text = strip raw, turn_timestamp = clock 0\<rparr>]))
                 (mode s) (Some (mode_specific_data s))) = Inl e"
  shows "map_of (store (handle_text_message groq clock st client_id data)) sid =
           Some (s\<lparr>conversation_history :=
                     slice_last 30 (conversation_history s
                       @ [\<lparr>turn_role = ''user'', turn_text = strip raw, turn_timestamp = clock 0\<rparr>]),
                   last_activity := clock 1\<rparr>) \<and>
         (\<forall>k. k \<noteq> sid \<longrightarrow>
            map_of (store (handle_text_message groq clock st client_id data)) k = map_of (store st) k) \<and>
         manager (handle_text_message groq clock st client_id data) = manager st \<and>
         sent (handle_text_message groq clock st client_id data) =
           sent st @ [(client_id, AiThinking ''generating''),
                      (client_id, ErrorEvent ''Error processing your message'' e)]"
proof -
  obtain reqs where g: "generate_response groq (strip raw)
                 (slice_last 30 (conversation_history s
                    @ [\<lparr>turn_role = ''user'', turn_text = strip raw, turn_timestamp = clock 0\<rparr>]))
                 (mode s) (Some (mode_specific_data s)) = (reqs, Inl e)"
    using fail by (metis prod.collapse)
  show ?thesis
    using handle_text_message_failure [where clock = clock, OF conn sess text1 text2 g] active
      map_of_add_message [OF sess, of "''user''" "strip raw" "clock 0" "clock 1"]
    by (simp add: send_error_def send_json_def map_of_add_message_other)
qed

text \<open>The same without the socket: the events are pushed only to a connection that has one.\<close>

lemma handle_text_message_failure_any_connection:
  assumes conn: "map_of (connection_sessions (manager st)) client_id = Some sid"
    and sess: "map_of (store st) sid = Some s"
    and text1: "dict_get data ''text'' (PStr []) = PStr raw"
    and text2: "strip raw \<noteq> []"
    and fail: "snd (generate_response groq (strip raw)
                 (slice_last 30 (conversation_history s
                    @ [\<lparr>turn_role = ''user'', turn_text = strip raw, turn_timestamp = clock 0\<rparr>]))
                 (mode s) (Some (mode_specific_data s))) = Inl e"
  shows "map_of (store (handle_text_message groq clock st client_id data)) sid =
           Some (s\<lparr>conversation_history :=
                     slice_last 30 (conversation_history s
                       @ [\<lparr>turn_role = ''user'', turn_text = strip raw, turn_timestamp = clock 0\<rparr>]),
                   last_activity := clock 1\<rparr>) \<and>
         manager (handle_text_message groq clock st client_id data) = manager st \<and>
         sent (handle_text_message groq clock st client_id data) =
           sent st @
           (if client_id \<in> set (active_connections (manager st))
            then [(client_id, AiThinking ''generating''),
                  (client_id, ErrorEvent ''Error processing your message'' e)]
            else [])"
proof -
  obtain reqs where g: "generate_response groq (strip raw)
                 (slice_last 30 (conversation_history s
                    @ [\<lparr>turn_role = ''user'', turn_text = strip raw, turn_timestamp = clock 0\<rparr>]))
                 (mode s) (Some (mode_specific_data s)) = (reqs, Inl e)"
    using fail by (metis prod.collapse)
  show ?thesis
    using handle_text_message_failure [where clock = clock, OF conn sess text1 text2 g]
      map_of_add_message [OF sess, of "''user''" "strip raw" "clock 0" "clock 1"]
    by (simp add: send_error_def send_json_def)
qed

lemma handle_text_message_success_session:
  assumes conn: "map_of (connection_sessions (manager st)) client_id = Some sid"
    and sess: "map_of (store st) sid = Some s"
    and text1: "dict_get data ''text'' (PStr []) = PStr raw"
    and text2: "strip raw \<noteq> []"
    and ok: "snd (generate_response groq (strip raw)
                 (slice_last 30 (conversation_history s
                    @ [\<lparr>turn_role = ''user'', turn_text = strip raw, turn_timestamp = clock 0\<rparr>]))
                 (mode s) (Some (mode_specific_data s))) = Inr resp"
  shows "map_of (store (handle_text_message groq clock st client_id data)) sid =
           Some (s\<lparr>conversation_history :=
                     slice_last 30 (conversation_history s
                       @ [\<lparr>turn_role = ''user'', turn_text = strip raw, turn_timestamp = clock 0\<rparr>,
                          \<lparr>turn_role = ''ai'', turn_text = resp_text resp, turn_timestamp = clock 2\<rparr>]),
                   mode_specific_data :=
                     (if resp_mode_data resp \<noteq> []
                      then dict_update (mode_specific_data s) (resp_mode_data resp)
                      else mode_specific_data s),
                   last_activity := clock 3\<rparr>)"
    and "sent (handle_text_message groq clock st client_id data) =
           sent st @
           (if client_id \<in> set (active_connections (manager st))
            then [(client_id, AiThinking ''generating''),
                  (client_id, AiResponse (resp_text resp) (text_to_speech (resp_text resp))
                     (resp_mode_data resp) (trunc_int (clock 4 * 1000)))]
            else [])"
proof -
  let ?u = "\<lparr>turn_role = ''user'', turn_text = strip raw, turn_timestamp = clock 0\<rparr>"
  let ?a = "\<lparr>turn_role = ''ai'', turn_text = resp_text resp, turn_timestamp = clock 2\<rparr>"
  let ?ss1 = "add_message (store st) sid ''user'' (strip raw) (clock 0) (clock 1)"
  let ?s1 = "s\<lparr>conversation_history := slice_last 30 (conversation_history s @ [?u]),
               last_activity := clock 1\<rparr>"
  let ?ss2 = "if resp_mode_data resp \<noteq> [] then update_mode_data ?ss1 sid (resp_mode_data resp)
              else ?ss1"
  let ?s2 = "?s1\<lparr>mode_specific_data :=
                     (if resp_mode_data resp \<noteq> []
                      then dict_update (mode_specific_data s) (resp_mode_data resp)
                      else mode_specific_data s)\<rparr>"
  obtain reqs where g: "generate_response groq (strip raw)
                 (slice_last 30 (conversation_history s @ [?u]))
                 (mode s) (Some (mode_specific_data s)) = (reqs, Inr resp)"
    using ok by (metis prod.collapse)
  note h = handle_text_message_success [where clock = clock, OF conn sess text1 text2 g]
  have m1: "map_of ?ss1 sid = Some ?s1"
    by (rule map_of_add_message [OF sess])
  have m2: "map_of ?ss2 sid = Some ?s2"
    using m1 by (simp add: map_of_update_mode_data)
  have m3: "map_of (add_message ?ss2 sid ''ai'' (resp_text resp) (clock 2) (clock 3)) sid =
      Some (?s2\<lparr>conversation_history := slice_last 30 (conversation_history ?s2 @ [?a]),
                 last_activity := clock 3\<rparr>)"
    by (rule map_of_add_message [OF m2])
  have hist: "slice_last 30 (conversation_history ?s2 @ [?a])
      = slice_last 30 (conversation_history s @ [?u, ?a])"
    using slice_last_append_left [of 30 "conversation_history s @ [?u]" "[?a]"] by simp
  have st: "store (handle_text_message groq clock st client_id data)
      = add_message ?ss2 sid ''ai'' (resp_text resp) (clock 2) (clock 3)"
    unfolding h by (simp add: send_json_def)
  show "map_of (store (handle_text_message groq clock st client_id data)) sid =
           Some (s\<lparr>conversation_history :=
                     slice_last 30 (conversation_history s @ [?u, ?a]),
                   mode_specific_data :=
                     (if resp_mode_data resp \<noteq> []
                      then dict_update (mode_specific_data s) (resp_mode_data resp)
                      else mode_specific_data s),
                   last_activity := clock 3\<rparr>)"
    unfolding st m3 hist by simp
  show "sent (handle_text_message groq clock st client_id data) =
           sent st @
           (if client_id \<in> set (active_connections (manager st))
            then [(client_id, AiThinking ''generating''),
                  (client_id, AiResponse (resp_text resp) (text_to_speech (resp_text resp))
                     (resp_mode_data resp) (trunc_int (clock 4 * 1000)))]
            else [])"
    unfolding h by (simp add: send_json_def)
qed

text \<open>
  A turn that succeeds changes the mode data of its session as one step of
  \<open>mode_data_after\<close> does.
\<close>

lemma generate_response_patch:
  assumes "snd (generate_response groq user_message history m (Some md)) = Inr resp"
  shows "process_mode_logic m md user_message (resp_text resp) = Inr (resp_mode_data resp)"
  using assms
  by (auto simp: generate_response_def Let_def
      split: option.splits sum.splits llm_reply.splits)

lemma successful_turn_mode_data:
  assumes conn: "map_of (connection_sessions (manager st)) client_id = Some sid"
    and sess: "map_of (store st) sid = Some s"
    and text1: "dict_get data ''text'' (PStr []) = PStr raw"
    and text2: "strip raw \<noteq> []"
    and ok: "snd (generate_response groq (strip raw)
                 (slice_last 30 (conversation_history s
                    @ [\<lparr>turn_role = ''user'', turn_text = strip raw, turn_timestamp = clock 0\<rparr>]))
                 (mode s) (Some (mode_specific_data s))) = Inr resp"
  shows "\<exists>s'. map_of (store (handle_text_message groq clock st client_id data)) sid = Some s' \<and>
              mode s' = mode s \<and>
              mode_specific_data s' =
                mode_data_after (mode s) (mode_specific_data s) [(strip raw, resp_text resp)]"
  using handle_text_message_success_session(1) [where clock = clock, OF conn sess text1 text2 ok]
    generate_response_patch [OF ok]
  by simp

lemma example_conn: "map_of (connection_sessions (manager example_app_state)) ''c1'' = Some ''a''"
  by (simp add: example_app_state_def)

lemma example_sess: "map_of (store example_app_state) ''a'' = Some (example_session ''a'' 100)"
  by (simp add: example_app_state_def)

lemma example_active: "''c1'' \<in> set (active_connections (manager example_app_state))"
  by (simp add: example_app_state_def)

lemma example_text:
  "dict_get [(''type'', PStr ''text-message''), (''text'', PStr '' hello '')] ''text'' (PStr [])
     = PStr '' hello ''"
  "strip '' hello '' = ''hello''"
  by (simp_all add: dict_get_def strip_def is_space_def)

lemma example_fail:
  "generate_response failing_groq ''hello'' history ''chat'' (Some md)
     = ([build_messages chat_prompt history ''hello''],
        Inl (AIServiceError (UpstreamError ''rate limit exceeded'')))"
  by (simp add: generate_response_def failing_groq_def get_system_prompt_def)

lemma example_answer:
  "generate_response answering_groq user_message history ''chat'' (Some md)
     = ([build_messages chat_prompt history user_message],
        Inr \<lparr>resp_text = ''Nice to meet you.'', resp_mode_data = []\<rparr>)"
  by (simp add: generate_response_def answering_groq_def get_system_prompt_def
      process_mode_logic_def strip_def is_space_def)

lemma closed_conn: "map_of (connection_sessions (manager example_closed_state)) ''c1'' = Some ''a''"
  by (simp add: example_closed_state_def)

lemma closed_sess: "map_of (store example_closed_state) ''a'' = Some (example_session ''a'' 100)"
  by (simp add: example_closed_state_def example_app_state_def)

lemma busy_conn: "map_of (connection_sessions (manager example_busy_state)) ''c1'' = Some ''a''"
  by (simp add: example_busy_state_def)

lemma busy_sess:
  "map_of (store example_busy_state) ''a''
     = Some ((example_session ''a'' 100)\<lparr>conversation_history := example_long_history\<rparr>)"
  by (simp add: example_busy_state_def)

text \<open>
  Claim C5. For a text message on a connection whose session is in the store, with a
  text that is not empty after stripping, a client that is set and a system prompt that
  evaluates: the one request sent to the language model is the system prompt of the mode,
  then the last 10 entries of the history read after the user entry was appended, the
  most recent last, each with the role \<^verbatim>\<open>user\<close> when its role is \<^verbatim>\<open>user\<close> and the role
  \<^verbatim>\<open>assistant\<close> otherwise, then the user text once more. The last entry of that window
  is the user entry just appended, before it come the last 9 entries of the old history,
  and so the request ends with the user text twice.
\<close>

theorem llm_messages_repeat_user_text:
  assumes conn: "map_of (connection_sessions (manager st)) client_id = Some sid"
    and sess: "map_of (store st) sid = Some s"
    and text1: "dict_get data ''text'' (PStr []) = PStr raw"
    and text2: "strip raw \<noteq> []"
    and cl: "client groq = Some c"
    and sp: "get_system_prompt (mode s) (Some (mode_specific_data s)) = Inr system_prompt"
  shows "\<exists>s1 older.
           get_session (add_message (store st) sid ''user'' (strip raw) (clock 0) (clock 1)) sid = Some s1 \<and>
           llm_requests (handle_text_message groq clock st client_id data) =
             llm_requests st @
             [\<lparr>msg_role = ''system'', msg_content = system_prompt\<rparr>
                # map (\<lambda>msg. \<lparr>msg_role = (if turn_role msg = ''user'' then ''user'' else ''assistant''),
                               msg_content = turn_text msg\<rparr>)
                    (slice_last 10 (conversation_history s1))
                @ [\<lparr>msg_role = ''user'', msg_content = strip raw\<rparr>]] \<and>
           slice_last 10 (conversation_history s1) =
             older @ [\<lparr>turn_role = ''user'', turn_text = strip raw, turn_timestamp = clock 0\<rparr>] \<and>
           older = drop (length (conversation_history s) - 9) (conversation_history s) \<and>
           llm_requests (handle_text_message groq clock st client_id data) =
             llm_requests st @
             [\<lparr>msg_role = ''system'', msg_content = system_prompt\<rparr>
                # map (\<lambda>msg. \<lparr>msg_role = (if turn_role msg = ''user'' then ''user'' else ''assistant''),
                               msg_content = turn_text msg\<rparr>) older
                @ [\<lparr>msg_role = ''user'', msg_content = strip raw\<rparr>,
                   \<lparr>msg_role = ''user'', msg_content = strip raw\<rparr>]]"
proof -
  let ?u = "\<lparr>turn_role = ''user'', turn_text = strip raw, turn_timestamp = clock 0\<rparr>"
  let ?s1 = "s\<lparr>conversation_history := slice_last 30 (conversation_history s @ [?u]),
               last_activity := clock 1\<rparr>"
  let ?older = "drop (length (conversation_history s) - 9) (conversation_history s)"
  let ?f = "\<lambda>msg. \<lparr>msg_role = (if turn_role msg = ''user'' then ''user'' else ''assistant''),
                   msg_content = turn_text msg\<rparr>"
  have hm: "history_message = ?f"
    by (rule ext) (simp add: history_message_def)
  have s1: "get_session (add_message (store st) sid ''user'' (strip raw) (clock 0) (clock 1)) sid
      = Some ?s1"
    using map_of_add_message [OF sess] by (simp add: get_session_def)
  have win: "slice_last 10 (conversation_history ?s1) = ?older @ [?u]"
    using slice_last_suffix [of "[?u]" 10 "conversation_history s"]
    by (simp add: slice_last_slice_last)
  have reqs: "llm_requests (handle_text_message groq clock st client_id data) =
             llm_requests st @
             [\<lparr>msg_role = ''system'', msg_content = system_prompt\<rparr>
                # map ?f (slice_last 10 (conversation_history ?s1))
                @ [\<lparr>msg_role = ''user'', msg_content = strip raw\<rparr>]]"
    using handle_text_message_requests [OF conn sess text1 text2, of groq clock]
      generate_response_requests [OF cl sp]
    by (simp add: build_messages_def hm)
  have twice: "llm_requests (handle_text_message groq clock st client_id data) =
             llm_requests st @
             [\<lparr>msg_role = ''system'', msg_content = system_prompt\<rparr>
                # map ?f ?older
                @ [\<lparr>msg_role = ''user'', msg_content = strip raw\<rparr>,
                   \<lparr>msg_role = ''user'', msg_content = strip raw\<rparr>]]"
    unfolding reqs win by simp
  have all: "get_session (add_message (store st) sid ''user'' (strip raw) (clock 0) (clock 1)) sid
               = Some ?s1 \<and>
           llm_requests (handle_text_message groq clock st client_id data) =
             llm_requests st @
             [\<lparr>msg_role = ''system'', msg_content = system_prompt\<rparr>
                # map ?f (slice_last 10 (conversation_history ?s1))
                @ [\<lparr>msg_role = ''user'', msg_content = strip raw\<rparr>]] \<and>
           slice_last 10 (conversation_history ?s1) = ?older @ [?u] \<and>
           ?older = drop (length (conversation_history s) - 9) (conversation_history s) \<and>
           llm_requests (handle_text_message groq clock st client_id data) =
             llm_requests st @
             [\<lparr>msg_role = ''system'', msg_content = system_prompt\<rparr>
                # map ?f ?older
                @ [\<lparr>msg_role = ''user'', msg_content = strip raw\<rparr>,
                   \<lparr>msg_role = ''user'', msg_content = strip raw\<rparr>]]"
    by (intro conjI refl) (fact s1 reqs win twice)+
  show ?thesis
    by (rule exI [of _ ?s1], rule exI [of _ ?older]) (rule all)
qed

theorem llm_messages_repeat_user_text_witness:
  "map_of (connection_sessions (manager example_busy_state)) ''c1'' = Some ''a'' \<and>
   map_of (store example_busy_state) ''a''
     = Some ((example_session ''a'' 100)\<lparr>conversation_history := example_long_history\<rparr>) \<and>
   length example_long_history = 12 \<and>
   strip '' hello '' = ''hello'' \<and>
   client answering_groq = Some (\<lambda>messages. Content (Some '' Nice to meet you. '')) \<and>
   get_system_prompt ''chat'' (Some (initialize_mode_data ''chat'' [])) = Inr chat_prompt \<and>
   llm_requests (handle_text_message answering_groq example_clock example_busy_state ''c1''
                   [(''type'', PStr ''text-message''), (''text'', PStr '' hello '')])
     = [[\<lparr>msg_role = ''system'', msg_content = chat_prompt\<rparr>,
         \<lparr>msg_role = ''user'', msg_content = ''t3''\<rparr>,
         \<lparr>msg_role = ''assistant'', msg_content = ''t4''\<rparr>,
         \<lparr>msg_role = ''user'', msg_content = ''t5''\<rparr>,
         \<lparr>msg_role = ''assistant'', msg_content = ''t6''\<rparr>,
         \<lparr>msg_role = ''user'', msg_content = ''t7''\<rparr>,
         \<lparr>msg_role = ''assistant'', msg_content = ''t8''\<rparr>,
         \<lparr>msg_role = ''user'', msg_content = ''t9''\<rparr>,
         \<lparr>msg_role = ''assistant'', msg_content = ''t10''\<rparr>,
         \<lparr>msg_role = ''user'', msg_content = ''t11''\<rparr>,
         \<lparr>msg_role = ''user'', msg_content = ''hello''\<rparr>,
         \<lparr>msg_role = ''user'', msg_content = ''hello''\<rparr>]]"
proof -
  let ?s = "(example_session ''a'' 100)\<lparr>conversation_history := example_long_history\<rparr>"
  have nz: "strip '' hello '' \<noteq> []" by (simp add: example_text)
  have cl: "client answering_groq = Some (\<lambda>messages. Content (Some '' Nice to meet you. ''))"
    by (simp add: answering_groq_def)
  have sp: "get_system_prompt (mode ?s) (Some (mode_specific_data ?s)) = Inr chat_prompt"
    by (simp add: get_system_prompt_def example_session_def)
  have sp': "get_system_prompt ''chat'' (Some (initialize_mode_data ''chat'' [])) = Inr chat_prompt"
    by (simp add: get_system_prompt_def)
  have len: "length example_long_history = 12"
    by (simp add: example_long_history_def)
  from llm_messages_repeat_user_text [where clock = example_clock,
      OF busy_conn busy_sess example_text(1) nz cl sp]
  obtain s1 older where
    gs: "get_session (add_message (store example_busy_state) ''a'' ''user''
           (strip '' hello '') (example_clock 0) (example_clock 1)) ''a'' = Some s1"
    and r: "llm_requests (handle_text_message answering_groq example_clock example_busy_state ''c1''
                   [(''type'', PStr ''text-message''), (''text'', PStr '' hello '')]) =
             llm_requests example_busy_state @
             [\<lparr>msg_role = ''system'', msg_content = chat_prompt\<rparr>
                # map (\<lambda>msg. \<lparr>msg_role = (if turn_role msg = ''user'' then ''user'' else ''assistant''),
                               msg_content = turn_text msg\<rparr>)
                    (slice_last 10 (conversation_history s1))
                @ [\<lparr>msg_role = ''user'', msg_content = strip '' hello ''\<rparr>]]"
    and w: "slice_last 10 (conversation_history s1) =
             older @ [\<lparr>turn_role = ''user'', turn_text = strip '' hello '',
                       turn_timestamp = example_clock 0\<rparr>]"
    and o: "older = drop (length (conversation_history ?s) - 9) (conversation_history ?s)"
    and tw: "llm_requests (handle_text_message answering_groq example_clock example_busy_state ''c1''
                   [(''type'', PStr ''text-message''), (''text'', PStr '' hello '')]) =
             llm_requests example_busy_state @
             [\<lparr>msg_role = ''system'', msg_content = chat_prompt\<rparr>
                # map (\<lambda>msg. \<lparr>msg_role = (if turn_role msg = ''user'' then ''user'' else ''assistant''),
                               msg_content = turn_text msg\<rparr>) older
                @ [\<lparr>msg_role = ''user'', msg_content = strip '' hello ''\<rparr>,
                   \<lparr>msg_role = ''user'', msg_content = strip '' hello ''\<rparr>]]"
    by (elim exE conjE)
  have older: "older = drop 3 example_long_history"
    using o len by simp
  have hist: "drop 3 example_long_history =
      [\<lparr>turn_role = ''user'', turn_text = ''t3'', turn_timestamp = 3\<rparr>,
       \<lparr>turn_role = ''ai'', turn_text = ''t4'', turn_timestamp = 4\<rparr>,
       \<lparr>turn_role = ''user'', turn_text = ''t5'', turn_timestamp = 5\<rparr>,
       \<lparr>turn_role = ''ai'', turn_text = ''t6'', turn_timestamp = 6\<rparr>,
       \<lparr>turn_role = ''user'', turn_text = ''t7'', turn_timestamp = 7\<rparr>,
       \<lparr>turn_role = ''ai'', turn_text = ''t8'', turn_timestamp = 8\<rparr>,
       \<lparr>turn_role = ''user'', turn_text = ''t9'', turn_timestamp = 9\<rparr>,
       \<lparr>turn_role = ''ai'', turn_text = ''t10'', turn_timestamp = 10\<rparr>,
       \<lparr>turn_role = ''user'', turn_text = ''t11'', turn_timestamp = 11\<rparr>]"
    by (simp add: example_long_history_def)
  have req: "llm_requests (handle_text_message answering_groq example_clock example_busy_state ''c1''
                   [(''type'', PStr ''text-message''), (''text'', PStr '' hello '')])
     = [[\<lparr>msg_role = ''system'', msg_content = chat_prompt\<rparr>,
         \<lparr>msg_role = ''user'', msg_content = ''t3''\<rparr>,
         \<lparr>msg_role = ''assistant'', msg_content = ''t4''\<rparr>,
         \<lparr>msg_role = ''user'', msg_content = ''t5''\<rparr>,
         \<lparr>msg_role = ''assistant'', msg_content = ''t6''\<rparr>,
         \<lparr>msg_role = ''user'', msg_content = ''t7''\<rparr>,
         \<lparr>msg_role = ''assistant'', msg_content = ''t8''\<rparr>,
         \<lparr>msg_role = ''user'', msg_content = ''t9''\<rparr>,
         \<lparr>msg_role = ''assistant'', msg_content = ''t10''\<rparr>,
         \<lparr>msg_role = ''user'', msg_content = ''t11''\<rparr>,
         \<lparr>msg_role = ''user'', msg_content = ''hello''\<rparr>,
         \<lparr>msg_role = ''user'', msg_content = ''hello''\<rparr>]]"
    unfolding tw older hist by (simp add: example_text example_busy_state_def)
  from busy_conn busy_sess len example_text(2) cl sp' req show ?thesis
    by (intro conjI)
qed

text \<open>
  Counterexample to claim C2 as stated: with a client that raises, the session after the call is not the session before it:
  the history has the user entry and \<^verbatim>\<open>last_activity\<close> is the second clock reading.
\<close>

theorem failed_turn_changes_session_counterexample:
  "snd (generate_response failing_groq ''hello''
          [\<lparr>turn_role = ''user'', turn_text = ''hello'', turn_timestamp = 200\<rparr>]
          ''chat'' (Some (initialize_mode_data ''chat'' [])))
     = Inl (AIServiceError (UpstreamError ''rate limit exceeded'')) \<and>
   map_of (store example_app_state) ''a'' = Some (example_session ''a'' 100) \<and>
   conversation_history (example_session ''a'' 100) = [] \<and>
   last_activity (example_session ''a'' 100) = 100 \<and>
   map_of (store (handle_text_message failing_groq example_clock example_app_state ''c1''
                    [(''type'', PStr ''text-message''), (''text'', PStr '' hello '')])) ''a''
     = Some ((example_session ''a'' 100)
               \<lparr>conversation_history :=
                  [\<lparr>turn_role = ''user'', turn_text = ''hello'', turn_timestamp = 200\<rparr>],
                last_activity := 201\<rparr>) \<and>
   store (handle_text_message failing_groq example_clock example_app_state ''c1''
            [(''type'', PStr ''text-message''), (''text'', PStr '' hello '')])
     \<noteq> store example_app_state"
proof -
  have g: "generate_response failing_groq (strip '' hello '')
             (slice_last 30 (conversation_history (example_session ''a'' 100)
                @ [\<lparr>turn_role = ''user'', turn_text = strip '' hello '',
                    turn_timestamp = example_clock 0\<rparr>]))
             (mode (example_session ''a'' 100))
             (Some (mode_specific_data (example_session ''a'' 100)))
           = ([build_messages chat_prompt
                 (slice_last 30 (conversation_history (example_session ''a'' 100)
                    @ [\<lparr>turn_role = ''user'', turn_text = strip '' hello '',
                        turn_timestamp = example_clock 0\<rparr>])) ''hello''],
              Inl (AIServiceError (UpstreamError ''rate limit exceeded'')))"
    by (simp add: example_text example_fail example_session_def)
  have nz: "strip '' hello '' \<noteq> []" by (simp add: example_text)
  note h = handle_text_message_failure [where clock = example_clock,
      OF example_conn example_sess example_text(1) nz g]
  have m: "map_of (store (handle_text_message failing_groq example_clock example_app_state ''c1''
                    [(''type'', PStr ''text-message''), (''text'', PStr '' hello '')])) ''a''
     = Some ((example_session ''a'' 100)
               \<lparr>conversation_history :=
                  [\<lparr>turn_role = ''user'', turn_text = ''hello'', turn_timestamp = 200\<rparr>],
                last_activity := 201\<rparr>)"
    unfolding h
    using map_of_add_message [OF example_sess, of "''user''" "''hello''" 200 201]
    by (simp add: send_error_def send_json_def example_text example_clock_def
        example_session_def slice_last_def)
  have ne: "store (handle_text_message failing_groq example_clock example_app_state ''c1''
            [(''type'', PStr ''text-message''), (''text'', PStr '' hello '')])
     \<noteq> store example_app_state"
  proof
    assume "store (handle_text_message failing_groq example_clock example_app_state ''c1''
            [(''type'', PStr ''text-message''), (''text'', PStr '' hello '')])
       = store example_app_state"
    then have "map_of (store (handle_text_message failing_groq example_clock example_app_state ''c1''
            [(''type'', PStr ''text-message''), (''text'', PStr '' hello '')])) ''a''
       = map_of (store example_app_state) ''a''"
      by simp
    then show False
      unfolding m example_sess by (simp add: example_session_def)
  qed
  show ?thesis
    using m ne example_sess by (simp add: example_fail example_session_def)
qed

text \<open>
  Claim C2, amended. For a text message (connection open, session in the store, text not
  empty after stripping) in which \<^verbatim>\<open>generate_response\<close> raises: the session keeps its
  mode, its mode data and its creation time and gets no AI entry, but the user entry
  appended before the call stays in the history (capped at 30) and \<^verbatim>\<open>last_activity\<close>
  is the clock reading of that append; the other sessions and the connection manager are
  unchanged; the events pushed are \<^verbatim>\<open>ai-thinking\<close> and then a single \<^verbatim>\<open>error\<close> event.
\<close>

theorem failed_turn_keeps_user_turn:
  assumes conn: "map_of (connection_sessions (manager st)) client_id = Some sid"
    and sess: "map_of (store st) sid = Some s"
    and active: "client_id \<in> set (active_connections (manager st))"
    and text1: "dict_get data ''text'' (PStr []) = PStr raw"
    and text2: "strip raw \<noteq> []"
    and fail: "snd (generate_response groq (strip raw)
                 (slice_last 30 (conversation_history s
                    @ [\<lparr>turn_role = ''user'', turn_text = strip raw, turn_timestamp = clock 0\<rparr>]))
                 (mode s) (Some (mode_specific_data s))) = Inl e"
  shows "(\<exists>s'. map_of (store (handle_text_message groq clock st client_id data)) sid = Some s' \<and>
              session_id s' = session_id s \<and>
              mode s' = mode s \<and>
              mode_specific_data s' = mode_specific_data s \<and>
              created_at s' = created_at s \<and>
              conversation_history s' =
                slice_last 30 (conversation_history s
                  @ [\<lparr>turn_role = ''user'', turn_text = strip raw, turn_timestamp = clock 0\<rparr>]) \<and>
              last_activity s' = clock 1) \<and>
         (\<forall>k. k \<noteq> sid \<longrightarrow>
            map_of (store (handle_text_message groq clock st client_id data)) k = map_of (store st) k) \<and>
         manager (handle_text_message groq clock st client_id data) = manager st \<and>
         sent (handle_text_message groq clock st client_id data) =
           sent st @ [(client_id, AiThinking ''generating''),
                      (client_id, ErrorEvent ''Error processing your message'' e)]"
proof -
  note h = handle_text_message_failure_session [where clock = clock, OF assms]
  let ?s' = "s\<lparr>conversation_history :=
                 slice_last 30 (conversation_history s
                   @ [\<lparr>turn_role = ''user'', turn_text = strip raw, turn_timestamp = clock 0\<rparr>]),
               last_activity := clock 1\<rparr>"
  have "map_of (store (handle_text_message groq clock st client_id data)) sid = Some ?s'"
    using h by simp
  then have a: "\<exists>s'. map_of (store (handle_text_message groq clock st client_id data)) sid = Some s' \<and>
              session_id s' = session_id s \<and>
              mode s' = mode s \<and>
              mode_specific_data s' = mode_specific_data s \<and>
              created_at s' = created_at s \<and>
              conversation_history s' =
                slice_last 30 (conversation_history s
                  @ [\<lparr>turn_role = ''user'', turn_text = strip raw, turn_timestamp = clock 0\<rparr>]) \<and>
              last_activity s' = clock 1"
    by simp
  have b: "\<forall>k. k \<noteq> sid \<longrightarrow>
            map_of (store (handle_text_message groq clock st client_id data)) k = map_of (store st) k"
    using h by simp
  have c: "manager (handle_text_message groq clock st client_id data) = manager st"
    using h by simp
  have d: "sent (handle_text_message groq clock st client_id data) =
           sent st @ [(client_id, AiThinking ''generating''),
                      (client_id, ErrorEvent ''Error processing your message'' e)]"
    using h by simp
  from a b c d show ?thesis by (intro conjI)
qed

theorem failed_turn_keeps_user_turn_witness:
  "map_of (connection_sessions (manager example_app_state)) ''c1'' = Some ''a'' \<and>
   map_of (store example_app_state) ''a'' = Some (example_session ''a'' 100) \<and>
   ''c1'' \<in> set (active_connections (manager example_app_state)) \<and>
   strip '' hello '' = ''hello'' \<and>
   (\<exists>s'. map_of (store (handle_text_message failing_groq example_clock example_app_state ''c1''
                    [(''type'', PStr ''text-message''), (''text'', PStr '' hello '')])) ''a''
           = Some s' \<and>
         mode s' = ''chat'' \<and>
         mode_specific_data s' =
           [(''user_preferences'', PDict []), (''emotional_tone'', PStr ''friendly'')] \<and>
         created_at s' = 100 \<and>
         conversation_history s' =
           [\<lparr>turn_role = ''user'', turn_text = ''hello'', turn_timestamp = 200\<rparr>] \<and>
         last_activity s' = 201) \<and>
   sent (handle_text_message failing_groq example_clock example_app_state ''c1''
                    [(''type'', PStr ''text-message''), (''text'', PStr '' hello '')])
     = [(''c1'', AiThinking ''generating''),
        (''c1'', ErrorEvent ''Error processing your message''
                   (AIServiceError (UpstreamError ''rate limit exceeded'')))]"
proof -
  have nz: "strip '' hello '' \<noteq> []" by (simp add: example_text)
  have g: "snd (generate_response failing_groq (strip '' hello '')
             (slice_last 30 (conversation_history (example_session ''a'' 100)
                @ [\<lparr>turn_role = ''user'', turn_text = strip '' hello '',
                    turn_timestamp = example_clock 0\<rparr>]))
             (mode (example_session ''a'' 100))
             (Some (mode_specific_data (example_session ''a'' 100))))
           = Inl (AIServiceError (UpstreamError ''rate limit exceeded''))"
    by (simp add: example_text example_fail example_session_def)
  note t = failed_turn_keeps_user_turn [where clock = example_clock,
      OF example_conn example_sess example_active example_text(1) nz g]
  have a: "\<exists>s'. map_of (store (handle_text_message failing_groq example_clock example_app_state ''c1''
                    [(''type'', PStr ''text-message''), (''text'', PStr '' hello '')])) ''a''
           = Some s' \<and>
         mode s' = ''chat'' \<and>
         mode_specific_data s' =
           [(''user_preferences'', PDict []), (''emotional_tone'', PStr ''friendly'')] \<and>
         created_at s' = 100 \<and>
         conversation_history s' =
           [\<lparr>turn_role = ''user'', turn_text = ''hello'', turn_timestamp = 200\<rparr>] \<and>
         last_activity s' = 201"
    using t [THEN conjunct1]
    by (auto simp: example_text example_clock_def example_session_def slice_last_def
        initialize_mode_data_def dict_get_def)
  have b: "sent (handle_text_message failing_groq example_clock example_app_state ''c1''
                    [(''type'', PStr ''text-message''), (''text'', PStr '' hello '')])
     = [(''c1'', AiThinking ''generating''),
        (''c1'', ErrorEvent ''Error processing your message''
                   (AIServiceError (UpstreamError ''rate limit exceeded'')))]"
    using t [THEN conjunct2, THEN conjunct2, THEN conjunct2] by (simp add: example_app_state_def)
  from a b example_conn example_sess example_active example_text(2) show ?thesis
    by (intro conjI)
qed

text \<open>
  Claim C3. For a text message with a text that is not empty after stripping in which
  \<^verbatim>\<open>generate_response\<close> raises, the history after the call ends with the new user
  entry, with no AI entry after it, and the handler hands \<^verbatim>\<open>ai-thinking\<close> and one
  \<^verbatim>\<open>error\<close> event to \<^verbatim>\<open>send_json\<close>, which pushes them when the connection has a
  socket and drops them otherwise; after a second text message on the same connection in
  which \<^verbatim>\<open>generate_response\<close> returns, the history ends with the first user entry, the
  second user entry and the AI entry of the second call.
\<close>

theorem failed_turn_then_successful_turn:
  fixes clock clock2 :: "nat \<Rightarrow> real"
  defines "u1 \<equiv> \<lambda>raw. \<lparr>turn_role = ''user'', turn_text = strip raw, turn_timestamp = clock 0\<rparr>"
    and "u2 \<equiv> \<lambda>raw2. \<lparr>turn_role = ''user'', turn_text = strip raw2, turn_timestamp = clock2 0\<rparr>"
  assumes conn: "map_of (connection_sessions (manager st)) client_id = Some sid"
    and sess: "map_of (store st) sid = Some s"
    and text1: "dict_get data ''text'' (PStr []) = PStr raw"
    and text2: "strip raw \<noteq> []"
    and fail: "snd (generate_response groq (strip raw)
                 (slice_last 30 (conversation_history s @ [u1 raw]))
                 (mode s) (Some (mode_specific_data s))) = Inl e"
    and text1': "dict_get data2 ''text'' (PStr []) = PStr raw2"
    and text2': "strip raw2 \<noteq> []"
    and ok: "snd (generate_response groq2 (strip raw2)
                 (slice_last 30 (conversation_history s @ [u1 raw, u2 raw2]))
                 (mode s) (Some (mode_specific_data s))) = Inr resp"
  shows "(\<exists>reqs.
            handle_text_message groq clock st client_id data =
              send_error
                ((send_json
                    (st\<lparr>store := add_message (store st) sid ''user'' (strip raw) (clock 0) (clock 1)\<rparr>)
                    client_id (AiThinking ''generating''))
                 \<lparr>llm_requests := llm_requests st @ reqs\<rparr>) client_id e) \<and>
         (\<exists>s1 older1 s2 older2.
           map_of (store (handle_text_message groq clock st client_id data)) sid = Some s1 \<and>
           conversation_history s1 = slice_last 30 (conversation_history s @ [u1 raw]) \<and>
           conversation_history s1 = older1 @ [u1 raw] \<and>
           sent (handle_text_message groq clock st client_id data) =
             sent st @
             (if client_id \<in> set (active_connections (manager st))
              then [(client_id, AiThinking ''generating''),
                    (client_id, ErrorEvent ''Error processing your message'' e)]
              else []) \<and>
           map_of (store (handle_text_message groq2 clock2
                            (handle_text_message groq clock st client_id data) client_id data2)) sid
             = Some s2 \<and>
           conversation_history s2 =
             slice_last 30 (conversation_history s
               @ [u1 raw, u2 raw2,
                  \<lparr>turn_role = ''ai'', turn_text = resp_text resp, turn_timestamp = clock2 2\<rparr>]) \<and>
           conversation_history s2 =
             older2 @ [u1 raw, u2 raw2,
                  \<lparr>turn_role = ''ai'', turn_text = resp_text resp, turn_timestamp = clock2 2\<rparr>] \<and>
           sent (handle_text_message groq2 clock2
                   (handle_text_message groq clock st client_id data) client_id data2) =
             sent (handle_text_message groq clock st client_id data) @
             (if client_id \<in> set (active_connections (manager st))
              then [(client_id, AiThinking ''generating''),
                    (client_id, AiResponse (resp_text resp) (text_to_speech (resp_text resp))
                       (resp_mode_data resp) (trunc_int (clock2 4 * 1000)))]
              else []))"
proof -
  let ?st1 = "handle_text_message groq clock st client_id data"
  let ?st2 = "handle_text_message groq2 clock2 ?st1 client_id data2"
  let ?a2 = "\<lparr>turn_role = ''ai'', turn_text = resp_text resp, turn_timestamp = clock2 2\<rparr>"
  let ?s1 = "s\<lparr>conversation_history := slice_last 30 (conversation_history s @ [u1 raw]),
               last_activity := clock 1\<rparr>"
  have fail': "snd (generate_response groq (strip raw)
                 (slice_last 30 (conversation_history s
                   @ [\<lparr>turn_role = ''user'', turn_text = strip raw, turn_timestamp = clock 0\<rparr>]))
                 (mode s) (Some (mode_specific_data s))) = Inl e"
    using fail by (simp add: u1_def)
  obtain reqs where gr: "generate_response groq (strip raw)
                 (slice_last 30 (conversation_history s
                   @ [\<lparr>turn_role = ''user'', turn_text = strip raw, turn_timestamp = clock 0\<rparr>]))
                 (mode s) (Some (mode_specific_data s)) = (reqs, Inl e)"
    using fail' by (metis prod.collapse)
  have handed: "\<exists>reqs.
            handle_text_message groq clock st client_id data =
              send_error
                ((send_json
                    (st\<lparr>store := add_message (store st) sid ''user'' (strip raw) (clock 0) (clock 1)\<rparr>)
                    client_id (AiThinking ''generating''))
                 \<lparr>llm_requests := llm_requests st @ reqs\<rparr>) client_id e"
    using handle_text_message_failure [where clock = clock, OF conn sess text1 text2 gr]
    by (rule exI [of _ reqs])
  note f = handle_text_message_failure_any_connection
    [where clock = clock, OF conn sess text1 text2 fail']
  have s1: "map_of (store ?st1) sid = Some ?s1"
    using f by (simp add: u1_def)
  have sent1: "sent ?st1 = sent st @
             (if client_id \<in> set (active_connections (manager st))
              then [(client_id, AiThinking ''generating''),
                    (client_id, ErrorEvent ''Error processing your message'' e)]
              else [])"
    using f by simp
  have man1: "manager ?st1 = manager st"
    using f by simp
  have conn1: "map_of (connection_sessions (manager ?st1)) client_id = Some sid"
    using man1 conn by simp
  have h1: "conversation_history ?s1 =
      drop (length (conversation_history s) + length [u1 raw] - 30) (conversation_history s) @ [u1 raw]"
    using slice_last_suffix [of "[u1 raw]" 30 "conversation_history s"] by simp
  have ok': "snd (generate_response groq2 (strip raw2)
                 (slice_last 30 (conversation_history ?s1
                    @ [\<lparr>turn_role = ''user'', turn_text = strip raw2, turn_timestamp = clock2 0\<rparr>]))
                 (mode ?s1) (Some (mode_specific_data ?s1))) = Inr resp"
    using ok slice_last_append_left [of 30 "conversation_history s @ [u1 raw]" "[u2 raw2]"]
    by (simp add: u2_def)
  note g = handle_text_message_success_session
    [where clock = clock2, OF conn1 s1 text1' text2' ok']
  let ?s2 = "?s1\<lparr>conversation_history :=
                     slice_last 30 (conversation_history ?s1 @ [u2 raw2, ?a2]),
                   mode_specific_data :=
                     (if resp_mode_data resp \<noteq> []
                      then dict_update (mode_specific_data ?s1) (resp_mode_data resp)
                      else mode_specific_data ?s1),
                   last_activity := clock2 3\<rparr>"
  have s2: "map_of (store ?st2) sid = Some ?s2"
    using g(1) by (simp add: u2_def)
  have sent2: "sent ?st2 = sent ?st1 @
             (if client_id \<in> set (active_connections (manager st))
              then [(client_id, AiThinking ''generating''),
                    (client_id, AiResponse (resp_text resp) (text_to_speech (resp_text resp))
                       (resp_mode_data resp) (trunc_int (clock2 4 * 1000)))]
              else [])"
    using g(2) by (simp only: man1)
  have h2: "conversation_history ?s2 =
      slice_last 30 (conversation_history s @ [u1 raw, u2 raw2, ?a2])"
    using slice_last_append_left [of 30 "conversation_history s @ [u1 raw]" "[u2 raw2, ?a2]"]
    by simp
  let ?o1 = "drop (length (conversation_history s) + length [u1 raw] - 30) (conversation_history s)"
  let ?o2 = "drop (length (conversation_history s) + length [u1 raw, u2 raw2, ?a2] - 30)
        (conversation_history s)"
  have h3: "slice_last 30 (conversation_history s @ [u1 raw, u2 raw2, ?a2]) =
      ?o2 @ [u1 raw, u2 raw2, ?a2]"
    by (rule slice_last_suffix) simp
  have c1: "conversation_history ?s1 = slice_last 30 (conversation_history s @ [u1 raw])"
    by simp
  have h4: "conversation_history ?s2 = ?o2 @ [u1 raw, u2 raw2, ?a2]"
    by (rule trans [OF h2 h3])
  have all: "map_of (store ?st1) sid = Some ?s1 \<and>
           conversation_history ?s1 = slice_last 30 (conversation_history s @ [u1 raw]) \<and>
           conversation_history ?s1 = ?o1 @ [u1 raw] \<and>
           sent ?st1 =
             sent st @
             (if client_id \<in> set (active_connections (manager st))
              then [(client_id, AiThinking ''generating''),
                    (client_id, ErrorEvent ''Error processing your message'' e)]
              else []) \<and>
           map_of (store ?st2) sid = Some ?s2 \<and>
           conversation_history ?s2 =
             slice_last 30 (conversation_history s @ [u1 raw, u2 raw2, ?a2]) \<and>
           conversation_history ?s2 = ?o2 @ [u1 raw, u2 raw2, ?a2] \<and>
           sent ?st2 = sent ?st1 @
             (if client_id \<in> set (active_connections (manager st))
              then [(client_id, AiThinking ''generating''),
                    (client_id, AiResponse (resp_text resp) (text_to_speech (resp_text resp))
                       (resp_mode_data resp) (trunc_int (clock2 4 * 1000)))]
              else [])"
    by (intro conjI) (fact s1 c1 h1 sent1 s2 h2 h4 sent2)+
  have turns: "\<exists>s1 older1 s2 older2.
           map_of (store ?st1) sid = Some s1 \<and>
           conversation_history s1 = slice_last 30 (conversation_history s @ [u1 raw]) \<and>
           conversation_history s1 = older1 @ [u1 raw] \<and>
           sent ?st1 =
             sent st @
             (if client_id \<in> set (active_connections (manager st))
              then [(client_id, AiThinking ''generating''),
                    (client_id, ErrorEvent ''Error processing your message'' e)]
              else []) \<and>
           map_of (store ?st2) sid = Some s2 \<and>
           conversation_history s2 =
             slice_last 30 (conversation_history s @ [u1 raw, u2 raw2, ?a2]) \<and>
           conversation_history s2 = older2 @ [u1 raw, u2 raw2, ?a2] \<and>
           sent ?st2 = sent ?st1 @
             (if client_id \<in> set (active_connections (manager st))
              then [(client_id, AiThinking ''generating''),
                    (client_id, AiResponse (resp_text resp) (text_to_speech (resp_text resp))
                       (resp_mode_data resp) (trunc_int (clock2 4 * 1000)))]
              else [])"
    by (rule exI [of _ ?s1], rule exI [of _ ?o1], rule exI [of _ ?s2], rule exI [of _ ?o2])
       (rule all)
  from handed turns show ?thesis by (rule conjI)
qed

theorem failed_turn_then_successful_turn_witness:
  "map_of (connection_sessions (manager example_app_state)) ''c1'' = Some ''a'' \<and>
   map_of (store example_app_state) ''a'' = Some (example_session ''a'' 100) \<and>
   strip '' hello '' = ''hello'' \<and>
   (\<exists>s1 s2.
      map_of (store (handle_text_message failing_groq example_clock example_app_state ''c1''
                       [(''type'', PStr ''text-message''), (''text'', PStr '' hello '')])) ''a''
        = Some s1 \<and>
      conversation_history s1 =
        [\<lparr>turn_role = ''user'', turn_text = ''hello'', turn_timestamp = 200\<rparr>] \<and>
      sent (handle_text_message failing_groq example_clock example_app_state ''c1''
              [(''type'', PStr ''text-message''), (''text'', PStr '' hello '')])
        = [(''c1'', AiThinking ''generating''),
           (''c1'', ErrorEvent ''Error processing your message''
                      (AIServiceError (UpstreamError ''rate limit exceeded'')))] \<and>
      map_of (store (handle_text_message answering_groq (\<lambda>k. 300 + real k)
                (handle_text_message failing_groq example_clock example_app_state ''c1''
                   [(''type'', PStr ''text-message''), (''text'', PStr '' hello '')])
                ''c1'' [(''type'', PStr ''text-message''), (''text'', PStr '' hello '')])) ''a''
        = Some s2 \<and>
      conversation_history s2 =
        [\<lparr>turn_role = ''user'', turn_text = ''hello'', turn_timestamp = 200\<rparr>,
         \<lparr>turn_role = ''user'', turn_text = ''hello'', turn_timestamp = 300\<rparr>,
         \<lparr>turn_role = ''ai'', turn_text = ''Nice to meet you.'', turn_timestamp = 302\<rparr>]) \<and>
   map_of (connection_sessions (manager example_closed_state)) ''c1'' = Some ''a'' \<and>
   map_of (store example_closed_state) ''a'' = Some (example_session ''a'' 100) \<and>
   (\<exists>s1 s2.
      map_of (store (handle_text_message failing_groq example_clock example_closed_state ''c1''
                       [(''type'', PStr ''text-message''), (''text'', PStr '' hello '')])) ''a''
        = Some s1 \<and>
      conversation_history s1 =
        [\<lparr>turn_role = ''user'', turn_text = ''hello'', turn_timestamp = 200\<rparr>] \<and>
      sent (handle_text_message failing_groq example_clock example_closed_state ''c1''
              [(''type'', PStr ''text-message''), (''text'', PStr '' hello '')]) = [] \<and>
      map_of (store (handle_text_message answering_groq (\<lambda>k. 300 + real k)
                (handle_text_message failing_groq example_clock example_closed_state ''c1''
                   [(''type'', PStr ''text-message''), (''text'', PStr '' hello '')])
                ''c1'' [(''type'', PStr ''text-message''), (''text'', PStr '' hello '')])) ''a''
        = Some s2 \<and>
      conversation_history s2 =
        [\<lparr>turn_role = ''user'', turn_text = ''hello'', turn_timestamp = 200\<rparr>,
         \<lparr>turn_role = ''user'', turn_text = ''hello'', turn_timestamp = 300\<rparr>,
         \<lparr>turn_role = ''ai'', turn_text = ''Nice to meet you.'', turn_timestamp = 302\<rparr>])"
proof -
  let ?data = "[(''type'', PStr ''text-message''), (''text'', PStr '' hello '')]"
  let ?u1 = "\<lparr>turn_role = ''user'', turn_text = strip '' hello '',
               turn_timestamp = example_clock 0\<rparr>"
  let ?u2 = "\<lparr>turn_role = ''user'', turn_text = strip '' hello '',
               turn_timestamp = (\<lambda>k. 300 + real k) 0\<rparr>"
  let ?a2 = "\<lparr>turn_role = ''ai'',
               turn_text = resp_text \<lparr>resp_text = ''Nice to meet you.'', resp_mode_data = []\<rparr>,
               turn_timestamp = (\<lambda>k. 300 + real k) 2\<rparr>"
  have nz: "strip '' hello '' \<noteq> []" by (simp add: example_text)
  have f: "snd (generate_response failing_groq (strip '' hello '')
             (slice_last 30 (conversation_history (example_session ''a'' 100) @ [?u1]))
             (mode (example_session ''a'' 100))
             (Some (mode_specific_data (example_session ''a'' 100))))
           = Inl (AIServiceError (UpstreamError ''rate limit exceeded''))"
    by (simp add: example_text example_fail example_session_def)
  have k: "snd (generate_response answering_groq (strip '' hello '')
             (slice_last 30 (conversation_history (example_session ''a'' 100) @ [?u1, ?u2]))
             (mode (example_session ''a'' 100))
             (Some (mode_specific_data (example_session ''a'' 100))))
           = Inr \<lparr>resp_text = ''Nice to meet you.'', resp_mode_data = []\<rparr>"
    by (simp add: example_text example_answer example_session_def)
  have h1: "slice_last 30 (conversation_history (example_session ''a'' 100) @ [?u1]) =
        [\<lparr>turn_role = ''user'', turn_text = ''hello'', turn_timestamp = 200\<rparr>]"
    by (simp add: example_text example_clock_def example_session_def slice_last_def)
  have h2: "slice_last 30 (conversation_history (example_session ''a'' 100) @ [?u1, ?u2, ?a2]) =
        [\<lparr>turn_role = ''user'', turn_text = ''hello'', turn_timestamp = 200\<rparr>,
         \<lparr>turn_role = ''user'', turn_text = ''hello'', turn_timestamp = 300\<rparr>,
         \<lparr>turn_role = ''ai'', turn_text = ''Nice to meet you.'', turn_timestamp = 302\<rparr>]"
    by (simp add: example_text example_clock_def example_session_def slice_last_def)
  from failed_turn_then_successful_turn [where clock = example_clock
      and ?clock2.0 = "\<lambda>k. 300 + real k",
      OF example_conn example_sess example_text(1) nz f example_text(1) nz k,
      THEN conjunct2]
  obtain s1 older1 s2 older2 where
    a: "map_of (store (handle_text_message failing_groq example_clock example_app_state ''c1'' ?data)) ''a''
        = Some s1"
    and b: "conversation_history s1 =
        slice_last 30 (conversation_history (example_session ''a'' 100) @ [?u1])"
    and o1: "conversation_history s1 = older1 @ [?u1]"
    and c: "sent (handle_text_message failing_groq example_clock example_app_state ''c1'' ?data)
        = sent example_app_state @
          (if ''c1'' \<in> set (active_connections (manager example_app_state))
           then [(''c1'', AiThinking ''generating''),
                 (''c1'', ErrorEvent ''Error processing your message''
                            (AIServiceError (UpstreamError ''rate limit exceeded'')))]
           else [])"
    and d: "map_of (store (handle_text_message answering_groq (\<lambda>k. 300 + real k)
                (handle_text_message failing_groq example_clock example_app_state ''c1'' ?data)
                ''c1'' ?data)) ''a'' = Some s2"
    and e: "conversation_history s2 =
             slice_last 30 (conversation_history (example_session ''a'' 100) @ [?u1, ?u2, ?a2])"
    and o2: "conversation_history s2 = older2 @ [?u1, ?u2, ?a2]"
    and s: "sent (handle_text_message answering_groq (\<lambda>k. 300 + real k)
                (handle_text_message failing_groq example_clock example_app_state ''c1'' ?data)
                ''c1'' ?data) =
            sent (handle_text_message failing_groq example_clock example_app_state ''c1'' ?data) @
            (if ''c1'' \<in> set (active_connections (manager example_app_state))
             then [(''c1'', AiThinking ''generating''),
                   (''c1'', AiResponse (resp_text \<lparr>resp_text = ''Nice to meet you.'', resp_mode_data = []\<rparr>)
                      (text_to_speech (resp_text \<lparr>resp_text = ''Nice to meet you.'', resp_mode_data = []\<rparr>))
                      (resp_mode_data \<lparr>resp_text = ''Nice to meet you.'', resp_mode_data = []\<rparr>)
                      (trunc_int ((\<lambda>k. 300 + real k) 4 * 1000)))]
             else [])"
    by (elim exE conjE)
  have c': "sent (handle_text_message failing_groq example_clock example_app_state ''c1'' ?data)
        = [(''c1'', AiThinking ''generating''),
           (''c1'', ErrorEvent ''Error processing your message''
                      (AIServiceError (UpstreamError ''rate limit exceeded'')))]"
    using c by (simp add: example_app_state_def)
  have open_case: "\<exists>s1 s2.
      map_of (store (handle_text_message failing_groq example_clock example_app_state ''c1'' ?data)) ''a''
        = Some s1 \<and>
      conversation_history s1 =
        [\<lparr>turn_role = ''user'', turn_text = ''hello'', turn_timestamp = 200\<rparr>] \<and>
      sent (handle_text_message failing_groq example_clock example_app_state ''c1'' ?data)
        = [(''c1'', AiThinking ''generating''),
           (''c1'', ErrorEvent ''Error processing your message''
                      (AIServiceError (UpstreamError ''rate limit exceeded'')))] \<and>
      map_of (store (handle_text_message answering_groq (\<lambda>k. 300 + real k)
                (handle_text_message failing_groq example_clock example_app_state ''c1'' ?data)
                ''c1'' ?data)) ''a'' = Some s2 \<and>
      conversation_history s2 =
        [\<lparr>turn_role = ''user'', turn_text = ''hello'', turn_timestamp = 200\<rparr>,
         \<lparr>turn_role = ''user'', turn_text = ''hello'', turn_timestamp = 300\<rparr>,
         \<lparr>turn_role = ''ai'', turn_text = ''Nice to meet you.'', turn_timestamp = 302\<rparr>]"
    by (rule exI [of _ s1], rule exI [of _ s2])
       (intro conjI a trans [OF b h1] c' d trans [OF e h2])
  from failed_turn_then_successful_turn [where clock = example_clock
      and ?clock2.0 = "\<lambda>k. 300 + real k",
      OF closed_conn closed_sess example_text(1) nz f example_text(1) nz k,
      THEN conjunct2]
  obtain t1 tolder1 t2 tolder2 where
    ta: "map_of (store (handle_text_message failing_groq example_clock example_closed_state ''c1'' ?data)) ''a''
        = Some t1"
    and tb: "conversation_history t1 =
        slice_last 30 (conversation_history (example_session ''a'' 100) @ [?u1])"
    and to1: "conversation_history t1 = tolder1 @ [?u1]"
    and tc: "sent (handle_text_message failing_groq example_clock example_closed_state ''c1'' ?data)
        = sent example_closed_state @
          (if ''c1'' \<in> set (active_connections (manager example_closed_state))
           then [(''c1'', AiThinking ''generating''),
                 (''c1'', ErrorEvent ''Error processing your message''
                            (AIServiceError (UpstreamError ''rate limit exceeded'')))]
           else [])"
    and td: "map_of (store (handle_text_message answering_groq (\<lambda>k. 300 + real k)
                (handle_text_message failing_groq example_clock example_closed_state ''c1'' ?data)
                ''c1'' ?data)) ''a'' = Some t2"
    and te: "conversation_history t2 =
             slice_last 30 (conversation_history (example_session ''a'' 100) @ [?u1, ?u2, ?a2])"
    and to2: "conversation_history t2 = tolder2 @ [?u1, ?u2, ?a2]"
    and ts: "sent (handle_text_message answering_groq (\<lambda>k. 300 + real k)
                (handle_text_message failing_groq example_clock example_closed_state ''c1'' ?data)
                ''c1'' ?data) =
            sent (handle_text_message failing_groq example_clock example_closed_state ''c1'' ?data) @
            (if ''c1'' \<in> set (active_connections (manager example_closed_state))
             then [(''c1'', AiThinking ''generating''),
                   (''c1'', AiResponse (resp_text \<lparr>resp_text = ''Nice to meet you.'', resp_mode_data = []\<rparr>)
                      (text_to_speech (resp_text \<lparr>resp_text = ''Nice to meet you.'', resp_mode_data = []\<rparr>))
                      (resp_mode_data \<lparr>resp_text = ''Nice to meet you.'', resp_mode_data = []\<rparr>)
                      (trunc_int ((\<lambda>k. 300 + real k) 4 * 1000)))]
             else [])"
    by (elim exE conjE)
  have tc': "sent (handle_text_message failing_groq example_clock example_closed_state ''c1'' ?data) = []"
    using tc by (simp add: example_closed_state_def example_app_state_def)
  have closed_case: "\<exists>s1 s2.
      map_of (store (handle_text_message failing_groq example_clock example_closed_state ''c1'' ?data)) ''a''
        = Some s1 \<and>
      conversation_history s1 =
        [\<lparr>turn_role = ''user'', turn_text = ''hello'', turn_timestamp = 200\<rparr>] \<and>
      sent (handle_text_message failing_groq example_clock example_closed_state ''c1'' ?data) = [] \<and>
      map_of (store (handle_text_message answering_groq (\<lambda>k. 300 + real k)
                (handle_text_message failing_groq example_clock example_closed_state ''c1'' ?data)
                ''c1'' ?data)) ''a'' = Some s2 \<and>
      conversation_history s2 =
        [\<lparr>turn_role = ''user'', turn_text = ''hello'', turn_timestamp = 200\<rparr>,
         \<lparr>turn_role = ''user'', turn_text = ''hello'', turn_timestamp = 300\<rparr>,
         \<lparr>turn_role = ''ai'', turn_text = ''Nice to meet you.'', turn_timestamp = 302\<rparr>]"
    by (rule exI [of _ t1], rule exI [of _ t2])
       (intro conjI ta trans [OF tb h1] tc' td trans [OF te h2])
  from example_conn example_sess example_text(2) open_case closed_conn closed_sess closed_case
  show ?thesis by (intro conjI)
qed

end
